theory Spec2Isabelle
  imports Complex_Main
begin

section \<open>Numbers and the random source\<close>

text \<open>
  JavaScript numbers are modelled as real numbers: IEEE rounding and overflow are left
  out, every other operation is the one the source writes. \<open>Math.floor\<close> is the floor
  to an integer, \<open>Math.pow(x, 2.0)\<close> is the square, \<open>Math.pow(x, a)\<close> for a
  fractional \<open>a\<close> is \<open>powr\<close> (both give 0 at \<open>x = 0\<close>).

  \<open>Math.random()\<close> is an effect: the model passes the sequence of the values the
  generator will return, and every call takes the head of that sequence. A valid
  sequence has all its values in [0,1).
\<close>

type_synonym rng = "nat \<Rightarrow> real"

definition mathRandom :: "rng \<Rightarrow> real \<times> rng" where
  "mathRandom s = (s 0, \<lambda>n. s (Suc n))"

definition validRng :: "rng \<Rightarrow> bool" where
  "validRng s = (\<forall>n. 0 \<le> s n \<and> s n < 1)"

text \<open>The generator that returns 0 at every call, and the one that returns 1/4.\<close>

definition zeroDraws :: rng where
  "zeroDraws = (\<lambda>n. 0)"

definition quarterDraws :: rng where
  "quarterDraws = (\<lambda>n. 1/4)"

text \<open>\<open>gaussianRandom(mean, stdDev)\<close> of FireSimulation.jsx (Box-Muller).\<close>

definition gaussianRandom :: "real \<Rightarrow> real \<Rightarrow> rng \<Rightarrow> real \<times> rng" where
  "gaussianRandom mean stdDev s0 =
     (let (r1, s1) = mathRandom s0;
          u1 = max r1 (1 / 10 ^ 12);
          (u2, s2) = mathRandom s1;
          z0 = sqrt (- 2.0 * ln u1) * cos (2.0 * pi * u2)
      in (z0 * stdDev + mean, s2))"

section \<open>2D variant: the particle and its factory\<close>

record particle =
  positionX :: real
  positionY :: real
  velocityX :: real
  velocityY :: real
  initialEnergy :: real
  remainingEnergy :: real
  lifeFraction :: real
  basePixelRadius :: real
  normalizedDistanceFromCenter :: real
  receivedBurstEnergy :: bool

text \<open>
  The spawn spread of \<open>createFireParticle\<close> (V01/src/lib/createParticle.js) and the
  value \<open>Math.max(spawnSpreadPixels, 1e-3)\<close> it passes to the Gaussian and divides by.
\<close>

definition spawnSpreadPixels :: "real \<Rightarrow> real" where
  "spawnSpreadPixels energyPercent = 40 - (energyPercent / 100) * 25"

definition flooredSpread :: "real \<Rightarrow> real" where
  "flooredSpread spread = max spread (1 / 10 ^ 3)"

definition centerEnergyBias :: "real \<Rightarrow> real \<Rightarrow> real" where
  "centerEnergyBias normalizedDistance burstEnergyBonus =
     max 0 (1 - normalizedDistance * 0.4 + burstEnergyBonus)"

text \<open>
  \<open>createFireParticle(canvasWidthPx, canvasHeightPx, energyPercent, gaussian)\<close>. The
  \<open>gaussian\<close> argument is a sampling function, so it takes and returns the generator.
  The draws are taken in the order the source evaluates them; the second draw of
  \<open>Math.random() < c ? f(Math.random()) : 0\<close> happens only when the test succeeds.
\<close>

definition createFireParticle ::
  "real \<Rightarrow> real \<Rightarrow> real \<Rightarrow> (real \<Rightarrow> real \<Rightarrow> rng \<Rightarrow> real \<times> rng) \<Rightarrow> rng \<Rightarrow> particle \<times> rng" where
  "createFireParticle canvasWidthPx canvasHeightPx energyPercent gaussian s0 =
     (let burnerCenterX = canvasWidthPx / 2;
          burnerBaseY = canvasHeightPx - 20;
          energyScalar01 = energyPercent / 100;
          spread = spawnSpreadPixels energyPercent;
          (spawnX, s1) = gaussian burnerCenterX (flooredSpread spread) s0;
          (r1, s2) = mathRandom s1;
          spawnY = burnerBaseY + (r1 - 0.5) * 5;
          distanceFromCenterPx = \<bar>spawnX - burnerCenterX\<bar>;
          normalizedDistance = distanceFromCenterPx / flooredSpread spread;
          (r2, s3) = mathRandom s2;
          (burstEnergyBonus, s4) =
             (if r2 < 0.15 then (let (r3, s) = mathRandom s3 in (0.3 + r3 * 0.4, s))
              else (0, s3));
          receivedBurst = (burstEnergyBonus > 0);
          bias = centerEnergyBias normalizedDistance burstEnergyBonus;
          baseEnergyUnits = 40 + energyScalar01 * 90;
          particleEnergyUnits = baseEnergyUnits * bias;
          (r4, s5) = mathRandom s4;
          randomEnergyVariation = 0.7 + r4 * 0.6;
          energy = particleEnergyUnits * randomEnergyVariation;
          initialVelocityY = - 1.5 - energyScalar01 * 4.5;
          lateralSpreadScale = (1 - energyScalar01) * 0.8;
          (r5, s6) = mathRandom s5;
          (rareLateralKick, s7) =
             (if r5 < 0.08 then (let (r6, s) = mathRandom s6 in ((r6 - 0.5) * 1.2, s))
              else (0, s6));
          (r7, s8) = mathRandom s7;
          initialVelocityX = (r7 - 0.5) * lateralSpreadScale + rareLateralKick;
          (r8, s9) = mathRandom s8
      in (\<lparr> positionX = spawnX,
             positionY = spawnY,
             velocityX = initialVelocityX,
             velocityY = initialVelocityY,
             initialEnergy = energy,
             remainingEnergy = energy,
             lifeFraction = 1.0,
             basePixelRadius = 4 + r8 * 3,
             normalizedDistanceFromCenter = normalizedDistance,
             receivedBurstEnergy = receivedBurst \<rparr>, s9))"

section \<open>2D variant: the colour mapper\<close>

text \<open>
  \<open>computeParticleColorRGBA(particle, energyPercent)\<close> of V01/src/lib/colors.js. The
  source returns the CSS string \<open>rgba(r, g, b, alpha)\<close>; the model returns its four
  numbers.
\<close>

record rgba =
  red :: int
  green :: int
  blue :: int
  alpha :: real

definition computeParticleColorRGBA :: "particle \<Rightarrow> real \<Rightarrow> rgba" where
  "computeParticleColorRGBA p energyPercent =
     (let energyScalar01 = energyPercent / 100;
          life = lifeFraction p;
          (r, g, b) =
            (if energyScalar01 > 0.7 then
               (let t = (energyScalar01 - 0.7) / 0.3
                in (\<lfloor>120 + t * 135\<rfloor>, \<lfloor>180 + t * 75\<rfloor>, \<lfloor>255 :: real\<rfloor>))
             else if energyScalar01 > 0.4 then
               (let t = (energyScalar01 - 0.4) / 0.3
                in (\<lfloor>255 :: real\<rfloor>, \<lfloor>220 - t * 60\<rfloor>, \<lfloor>30 + t * 170\<rfloor>))
             else
               (let t = energyScalar01 / 0.4
                in (\<lfloor>220 + t * 35\<rfloor>, \<lfloor>40 + t * 180\<rfloor>, \<lfloor>10 + t * 20\<rfloor>)));
          a = (life powr 0.7) * 0.9
      in \<lparr> red = r, green = g, blue = b, alpha = a \<rparr>)"

section \<open>2D variant: the simulation step\<close>

text \<open>The spawn rate and the capacity of \<open>tick\<close> (FireSimulation.jsx, lines 89-90).\<close>

definition spawnPerFrame :: "real \<Rightarrow> int" where
  "spawnPerFrame energyPercent = 5 + \<lfloor>energyPercent / 10\<rfloor>"

definition particleCountCap :: "real \<Rightarrow> int" where
  "particleCountCap energyPercent = 400 + \<lfloor>energyPercent * 3\<rfloor>"

text \<open>
  The spawn loop \<open>for (i = 0; i < spawnPerFrame; i++)\<close>, by the number of iterations
  left; \<open>push\<close> appends at the end.
\<close>

fun spawnLoop :: "nat \<Rightarrow> real \<Rightarrow> real \<Rightarrow> real \<Rightarrow> particle list \<Rightarrow> rng \<Rightarrow> particle list \<times> rng" where
  "spawnLoop 0 w h energyPercent ps s = (ps, s)"
| "spawnLoop (Suc n) w h energyPercent ps s =
     (if int (length ps) < particleCountCap energyPercent then
        (let (p, s') = createFireParticle w h energyPercent gaussianRandom s
         in spawnLoop n w h energyPercent (ps @ [p]) s')
      else spawnLoop n w h energyPercent ps s)"

definition spawnPhase :: "real \<Rightarrow> real \<Rightarrow> real \<Rightarrow> particle list \<Rightarrow> rng \<Rightarrow> particle list \<times> rng" where
  "spawnPhase w h energyPercent ps s =
     spawnLoop (nat (spawnPerFrame energyPercent)) w h energyPercent ps s"

text \<open>The per-frame energy loss of a particle (step 3.e of the filter callback).\<close>

definition actualEnergyLoss :: "real \<Rightarrow> particle \<Rightarrow> real" where
  "actualEnergyLoss energyPercent p =
     (let energyScalar01 = energyPercent / 100;
          atEdgePenalty = (if receivedBurstEnergy p then 0 else normalizedDistanceFromCenter p * 0.3);
          baseEnergyLossPerFrame = 0.8 + (1 - energyScalar01) * 1.2
      in baseEnergyLossPerFrame * (1 + atEdgePenalty))"

text \<open>
  Steps 3.a to 3.f of the filter callback: the mutation of one particle. The source
  divides \<open>remainingEnergy\<close> by \<open>initialEnergy\<close>; where \<open>initialEnergy\<close> is 0 and the
  new \<open>remainingEnergy\<close> is negative JavaScript computes \<open>Math.max(0, -Infinity) = 0\<close>,
  which is also the value of the model (\<open>x / 0 = 0\<close> in HOL). Lemma
  \<open>updateParticle_zero_initial\<close> below shows that this is the only case that arises
  for a particle of the simulation.
\<close>

definition updateParticle :: "real \<Rightarrow> real \<Rightarrow> nat \<Rightarrow> particle \<Rightarrow> rng \<Rightarrow> particle \<times> rng" where
  "updateParticle canvasWidthPx energyPercent frameIndex p s0 =
     (let energyScalar01 = energyPercent / 100;
          buoyancyUpdraft = 0.09 * energyScalar01;
          vy1 = velocityY p - buoyancyUpdraft;
          turbulenceNoiseStrength = (1 - energyScalar01) * 0.15;
          deterministicNoise = sin (real frameIndex * 0.04 + positionX p * 0.02);
          lateralNoise = deterministicNoise * turbulenceNoiseStrength;
          (r1, s1) = mathRandom s0;
          (rareLateralSpike, s2) =
             (if r1 < 0.02 then (let (r2, s) = mathRandom s1 in ((r2 - 0.5) * 0.4, s))
              else (0, s1));
          (r3, s3) = mathRandom s2;
          vx1 = velocityX p + (lateralNoise + (r3 - 0.5) * turbulenceNoiseStrength + rareLateralSpike);
          canvasCenterX = canvasWidthPx / 2;
          dxFromCenter = positionX p - canvasCenterX;
          recirculationStrength = (if receivedBurstEnergy p then 0.5 else 1.0);
          centripetalForce =
            - dxFromCenter * 0.002 * (1 - energyScalar01 * 0.5) * recirculationStrength;
          vx2 = vx1 + centripetalForce;
          px = positionX p + vx2;
          py = positionY p + vy1;
          remaining = remainingEnergy p - actualEnergyLoss energyPercent p;
          life = max 0 (remaining / initialEnergy p);
          dragFactorX = 0.94 + energyScalar01 * 0.04;
          dragFactorY = 0.96 + energyScalar01 * 0.02
      in (p\<lparr> positionX := px,
             positionY := py,
             velocityX := vx2 * dragFactorX,
             velocityY := vy1 * dragFactorY,
             remainingEnergy := remaining,
             lifeFraction := life \<rparr>, s3))"

text \<open>The test \<open>onScreen\<close> of step 3.g.\<close>

definition onScreen :: "real \<Rightarrow> particle \<Rightarrow> bool" where
  "onScreen canvasWidthPx p =
     (remainingEnergy p > 0 \<and> positionY p > - 30 \<and> positionX p > - 30 \<and>
      positionX p < canvasWidthPx + 30)"

text \<open>
  What the callback hands to the canvas for a particle it keeps: the centre and radius
  of the circle and the colour of the gradient (the bloom circles reuse the same
  position and colour).
\<close>

record renderTuple =
  drawX :: real
  drawY :: real
  pixelRadius :: real
  drawColor :: rgba

definition emitParticle :: "real \<Rightarrow> particle \<Rightarrow> renderTuple" where
  "emitParticle energyPercent p =
     \<lparr> drawX = positionX p,
       drawY = positionY p,
       pixelRadius = basePixelRadius p * (0.5 + lifeFraction p * 0.5),
       drawColor = computeParticleColorRGBA p energyPercent \<rparr>"

text \<open>
  \<open>liveParticles.filter(callback)\<close>: the callback mutates the particle, returns false
  (before any drawing) when the particle is not on screen, and draws and returns true
  otherwise. The result is the kept particles, what was drawn, and the generator.
\<close>

fun filterParticles ::
  "real \<Rightarrow> real \<Rightarrow> nat \<Rightarrow> particle list \<Rightarrow> rng \<Rightarrow> particle list \<times> renderTuple list \<times> rng" where
  "filterParticles w energyPercent frameIndex [] s = ([], [], s)"
| "filterParticles w energyPercent frameIndex (p # ps) s =
     (let (p', s1) = updateParticle w energyPercent frameIndex p s;
          (kept, drawn, s2) = filterParticles w energyPercent frameIndex ps s1
      in if onScreen w p' then (p' # kept, emitParticle energyPercent p' # drawn, s2)
         else (kept, drawn, s2))"

record simState =
  liveParticles :: "particle list"
  frameIndex :: nat

definition initialState :: simState where
  "initialState = \<lparr> liveParticles = [], frameIndex = 0 \<rparr>"

text \<open>One call of \<open>tick\<close>: spawn, then filter, then \<open>frameIndex++\<close>.\<close>

definition tick :: "real \<Rightarrow> real \<Rightarrow> real \<Rightarrow> simState \<Rightarrow> rng \<Rightarrow> simState \<times> renderTuple list \<times> rng" where
  "tick w h energyPercent st s0 =
     (let (spawned, s1) = spawnPhase w h energyPercent (liveParticles st) s0;
          (kept, drawn, s2) = filterParticles w energyPercent (frameIndex st) spawned s1
      in (\<lparr> liveParticles = kept, frameIndex = Suc (frameIndex st) \<rparr>, drawn, s2))"

text \<open>\<open>t\<close> calls of \<open>tick\<close> in a row, as \<open>requestAnimationFrame\<close> schedules them.\<close>

fun runTicks :: "nat \<Rightarrow> real \<Rightarrow> real \<Rightarrow> real \<Rightarrow> simState \<Rightarrow> rng \<Rightarrow> simState \<times> rng" where
  "runTicks 0 w h energyPercent st s = (st, s)"
| "runTicks (Suc t) w h energyPercent st s =
     (let (st', drawn, s') = tick w h energyPercent st s
      in runTicks t w h energyPercent st' s')"

section \<open>The second particle factory (src/unnamed/part_001)\<close>

text \<open>
  The factory of part_001 spawns around the origin of a 3D scene: the particle has the
  fields of the 2D particle and a Z position and velocity.
\<close>

record particleZ = particle +
  positionZ :: real
  velocityZ :: real

definition spawnSpreadUnits :: "real \<Rightarrow> real" where
  "spawnSpreadUnits energyPercent = 1.5 - (energyPercent / 100) * 1.0"

definition createFireParticleZ ::
  "real \<Rightarrow> (real \<Rightarrow> real \<Rightarrow> rng \<Rightarrow> real \<times> rng) \<Rightarrow> rng \<Rightarrow> particleZ \<times> rng" where
  "createFireParticleZ energyPercent gaussian s0 =
     (let burnerCenterX = 0;
          burnerBaseY = 0;
          energyScalar01 = energyPercent / 100;
          spread = spawnSpreadUnits energyPercent;
          (spawnX, s1) = gaussian burnerCenterX (flooredSpread spread) s0;
          (spawnZ, s2) = gaussian 0 (flooredSpread spread) s1;
          (r1, s3) = mathRandom s2;
          spawnY = burnerBaseY + (r1 - 0.5) * 0.5;
          distanceFromCenterPx = sqrt ((spawnX - burnerCenterX) ^ 2 + spawnZ ^ 2);
          normalizedDistance = distanceFromCenterPx / flooredSpread spread;
          (r2, s4) = mathRandom s3;
          (burstEnergyBonus, s5) =
             (if r2 < 0.15 then (let (r3, s) = mathRandom s4 in (0.3 + r3 * 0.4, s))
              else (0, s4));
          receivedBurst = (burstEnergyBonus > 0);
          bias = centerEnergyBias normalizedDistance burstEnergyBonus;
          baseEnergyUnits = 40 + energyScalar01 * 90;
          particleEnergyUnits = baseEnergyUnits * bias;
          (r4, s6) = mathRandom s5;
          randomEnergyVariation = 0.7 + r4 * 0.6;
          energy = particleEnergyUnits * randomEnergyVariation;
          initialVelocityY = 1.5 + energyScalar01 * 4.5;
          lateralSpreadScale = (1 - energyScalar01) * 0.8;
          (r5, s7) = mathRandom s6;
          (rareLateralKick, s8) =
             (if r5 < 0.08 then (let (r6, s) = mathRandom s7 in ((r6 - 0.5) * 1.2, s))
              else (0, s7));
          (r7, s9) = mathRandom s8;
          initialVelocityX = (r7 - 0.5) * lateralSpreadScale + rareLateralKick;
          (r8, s10) = mathRandom s9;
          initialVelocityZ = (r8 - 0.5) * lateralSpreadScale + rareLateralKick;
          (r9, s11) = mathRandom s10
      in (\<lparr> positionX = spawnX,
             positionY = spawnY,
             velocityX = initialVelocityX,
             velocityY = initialVelocityY,
             initialEnergy = energy,
             remainingEnergy = energy,
             lifeFraction = 1.0,
             basePixelRadius = 4 + r9 * 3,
             normalizedDistanceFromCenter = normalizedDistance,
             receivedBurstEnergy = receivedBurst,
             positionZ = spawnZ,
             velocityZ = initialVelocityZ \<rparr>, s11))"

section \<open>3D variant (V01_3D/src/components/FireParticles.jsx)\<close>

datatype vector3 = Vector3 (vecX: real) (vecY: real) (vecZ: real)

datatype color = Color (colorR: real) (colorG: real) (colorB: real)

record particle3 =
  position :: vector3
  velocity :: vector3
  life :: real
  initialLife :: real
  color :: color

definition MAX_PARTICLES :: nat where
  "MAX_PARTICLES = 6000"

text \<open>
  \<open>spawnParticle(energyScalar)\<close>. It divides by \<open>spawnRadius\<close> as it is, with no
  floor; \<open>new THREE.Color()\<close> is white. The component imports \<open>gaussianRandom\<close> from
  its own \<open>lib/gaussian\<close>, which is not among the sources: the model uses the
  \<open>gaussianRandom\<close> above.
\<close>

definition spawnRadius :: "real \<Rightarrow> real" where
  "spawnRadius energyScalar = 1.5 - energyScalar * 1.2"

definition spawnParticle :: "real \<Rightarrow> rng \<Rightarrow> particle3 \<times> rng" where
  "spawnParticle energyScalar s0 =
     (let rampedScalar = energyScalar ^ 2;
          radius = spawnRadius energyScalar;
          (posX, s1) = gaussianRandom 0 (radius * 0.5) s0;
          (posZ, s2) = gaussianRandom 0 (radius * 0.5) s1;
          (posY, s3) = gaussianRandom 0 0.2 s2;
          upwardVelocity = 2.0 + rampedScalar * 10.0;
          (velX, s4) = gaussianRandom 0 0.5 s3;
          (velZ, s5) = gaussianRandom 0 0.5 s4;
          distFromCenter = sqrt (posX * posX + posZ * posZ) / radius;
          centerBias = max 0 (1.0 - distFromCenter * 0.5);
          baseLife = 1.0 + rampedScalar * 2.5;
          (r1, s6) = mathRandom s5;
          lifetime = baseLife * centerBias * (0.8 + r1 * 0.4)
      in (\<lparr> position = Vector3 posX posY posZ,
             velocity = Vector3 velX upwardVelocity velZ,
             life = lifetime,
             initialLife = lifetime,
             color = Color 1 1 1 \<rparr>, s6))"

text \<open>
  Step 1 of \<open>updateParticleColor\<close> (lines 85-106): the base colour, banded on the life
  fraction.
\<close>

definition lifeBaseColor :: "real \<Rightarrow> real \<times> real \<times> real" where
  "lifeBaseColor lifeFrac =
     (if lifeFrac > 0.9 then
        (let t = (lifeFrac - 0.9) / 0.1 in (1.0, 1.0, 1.0 - (1.0 - 0.8) * t))
      else if lifeFrac > 0.7 then
        (let t = (lifeFrac - 0.7) / 0.2 in (1.0, 1.0 - (1.0 - 0.6) * t, 0.8 - 0.8 * t))
      else if lifeFrac > 0.4 then
        (let t = (lifeFrac - 0.4) / 0.3 in (1.0, 0.6 - 0.4 * t, 0.0))
      else
        (let t = lifeFrac / 0.4 in (1.0 - (1.0 - 0.5) * t, 0.2 * t, 0.0)))"

text \<open>
  \<open>updateParticleColor(color, lifeFraction, energyScalar)\<close>: the colour object is
  overwritten by \<open>setRGB\<close>; the model returns the new colour.
\<close>

definition updateParticleColor :: "color \<Rightarrow> real \<Rightarrow> real \<Rightarrow> color" where
  "updateParticleColor c lifeFrac energyScalar =
     (let (r0, g0, b0) = lifeBaseColor lifeFrac;
          rampedScalar = energyScalar powr 1.5;
          hotness = rampedScalar * 1.5 * lifeFrac;
          r = min 1.0 (r0 + hotness * 0.2);
          g = min 1.0 (g0 + hotness * 0.2);
          b = min 1.0 (b0 + hotness * 1.0);
          lifeBrightness = lifeFrac powr 0.5;
          energyBrightness = 0.3 + (energyScalar powr 1.5) * 0.7;
          finalBrightness = lifeBrightness * energyBrightness
      in Color (r * finalBrightness) (g * finalBrightness) (b * finalBrightness))"

text \<open>The spawn rate and the capacity of \<open>useFrame\<close> (lines 160-161).\<close>

definition spawnRate :: "real \<Rightarrow> int" where
  "spawnRate energyScalar = 10 + \<lfloor>energyScalar ^ 2 * 200\<rfloor>"

definition particleCap :: "real \<Rightarrow> int" where
  "particleCap energyScalar = 500 + \<lfloor>energyScalar ^ 2 * 5500\<rfloor>"

fun spawnLoop3 :: "nat \<Rightarrow> real \<Rightarrow> particle3 list \<Rightarrow> rng \<Rightarrow> particle3 list \<times> rng" where
  "spawnLoop3 0 energyScalar ps s = (ps, s)"
| "spawnLoop3 (Suc n) energyScalar ps s =
     (if int (length ps) < particleCap energyScalar \<and> length ps < MAX_PARTICLES then
        (let (p, s') = spawnParticle energyScalar s
         in spawnLoop3 n energyScalar (ps @ [p]) s')
      else spawnLoop3 n energyScalar ps s)"

text \<open>
  Steps b and c of the filter callback for a particle that is still alive: physics,
  then the colour. The life fraction divides by \<open>initialLife\<close>, which is 0 only for
  a particle spawned with \<open>life = 0\<close>; such a particle is dropped by step a before
  this division whenever \<open>delta\<close> is not negative.
\<close>

definition advanceParticle :: "real \<Rightarrow> real \<Rightarrow> real \<Rightarrow> particle3 \<Rightarrow> particle3" where
  "advanceParticle energyScalar elapsedTime delta p =
     (let rampedScalar = energyScalar ^ 2;
          vy1 = vecY (velocity p) + (0.02 + rampedScalar * 0.1) * delta * 60;
          noise = (sin (vecY (position p) * 0.5 + elapsedTime) +
                   cos (vecX (position p) * 0.5 + elapsedTime)) * 0.4;
          vx1 = vecX (velocity p) + noise * (1.0 - energyScalar) * delta * 2;
          vz1 = vecZ (velocity p) + noise * (1.0 - energyScalar) * delta * 2;
          k = 1.0 - (0.3 + energyScalar * 0.4) * delta;
          v = Vector3 (vx1 * k) (vy1 * k) (vz1 * k);
          pos = Vector3 (vecX (position p) + vecX v * delta)
                        (vecY (position p) + vecY v * delta)
                        (vecZ (position p) + vecZ v * delta);
          lifeFrac = max 0 (life p / initialLife p)
      in p\<lparr> position := pos, velocity := v,
            color := updateParticleColor (color p) lifeFrac energyScalar \<rparr>)"

text \<open>
  The two \<open>Float32Array\<close> buffers are lists of \<open>MAX_PARTICLES * 3\<close> numbers. A write
  to a typed array at an index past its end is dropped, as \<open>xs[i := v]\<close> is.
\<close>

definition writeTriple :: "real list \<Rightarrow> nat \<Rightarrow> real \<Rightarrow> real \<Rightarrow> real \<Rightarrow> real list" where
  "writeTriple buf particleIndex a b c =
     buf[particleIndex * 3 := a, particleIndex * 3 + 1 := b, particleIndex * 3 + 2 := c]"

text \<open>
  \<open>liveParticles.filter(callback)\<close> of \<open>useFrame\<close>, with the counter
  \<open>particleIndex\<close> and the two buffers the callback writes.
\<close>

fun filterFrame ::
  "real \<Rightarrow> real \<Rightarrow> real \<Rightarrow> particle3 list \<Rightarrow> nat \<Rightarrow> real list \<Rightarrow> real list \<Rightarrow>
   particle3 list \<times> nat \<times> real list \<times> real list" where
  "filterFrame energyScalar elapsedTime delta [] particleIndex positions colors =
     ([], particleIndex, positions, colors)"
| "filterFrame energyScalar elapsedTime delta (p # ps) particleIndex positions colors =
     (let p1 = p\<lparr> life := life p - delta \<rparr>
      in if life p1 \<le> 0 then
           filterFrame energyScalar elapsedTime delta ps particleIndex positions colors
         else
           (let p2 = advanceParticle energyScalar elapsedTime delta p1;
                positions' = writeTriple positions particleIndex
                               (vecX (position p2)) (vecY (position p2)) (vecZ (position p2));
                colors' = writeTriple colors particleIndex
                               (colorR (color p2)) (colorG (color p2)) (colorB (color p2));
                (kept, n, positions'', colors'') =
                   filterFrame energyScalar elapsedTime delta ps (particleIndex + 1) positions' colors'
            in (p2 # kept, n, positions'', colors'')))"

record frameState =
  liveParticles3 :: "particle3 list"
  positionBuffer :: "real list"
  colorBuffer :: "real list"
  drawRange :: nat

definition initialFrameState :: frameState where
  "initialFrameState =
     \<lparr> liveParticles3 = [],
       positionBuffer = replicate (MAX_PARTICLES * 3) 0,
       colorBuffer = replicate (MAX_PARTICLES * 3) 0,
       drawRange = 0 \<rparr>"

text \<open>
  One call of the \<open>useFrame\<close> callback (with both refs ready), for the energy of the
  current render, the clock's elapsed time and the frame's delta.
\<close>

definition useFrame :: "real \<Rightarrow> real \<Rightarrow> real \<Rightarrow> frameState \<Rightarrow> rng \<Rightarrow> frameState \<times> rng" where
  "useFrame energyPercent elapsedTime delta st s0 =
     (let energyScalar = energyPercent / 100.0;
          (spawned, s1) = spawnLoop3 (nat (spawnRate energyScalar)) energyScalar (liveParticles3 st) s0;
          (kept, particleIndex, positions, colors) =
             filterFrame energyScalar elapsedTime delta spawned 0 (positionBuffer st) (colorBuffer st)
      in (\<lparr> liveParticles3 = kept,
             positionBuffer = positions,
             colorBuffer = colors,
             drawRange = particleIndex \<rparr>, s1))"

text \<open>
  A run of frames: each frame has its own energy (the slider can move between frames;
  the particle list lives in a ref and survives), elapsed time and delta.
\<close>

fun runFrames :: "(real \<times> real \<times> real) list \<Rightarrow> frameState \<Rightarrow> rng \<Rightarrow> frameState \<times> rng" where
  "runFrames [] st s = (st, s)"
| "runFrames ((energyPercent, elapsedTime, delta) # fs) st s =
     (let (st', s') = useFrame energyPercent elapsedTime delta st s
      in runFrames fs st' s')"

section \<open>Observations on a run\<close>

text \<open>
  One particle followed through \<open>n\<close> consecutive frames: the mutation of the filter
  callback, applied once per frame.
\<close>

fun updateN :: "nat \<Rightarrow> real \<Rightarrow> real \<Rightarrow> nat \<Rightarrow> particle \<Rightarrow> rng \<Rightarrow> particle \<times> rng" where
  "updateN 0 w energyPercent f p s = (p, s)"
| "updateN (Suc n) w energyPercent f p s =
     (let (p', s') = updateParticle w energyPercent f p s
      in updateN n w energyPercent (Suc f) p' s')"

text \<open>
  The number of particles the filter removed during the first \<open>t\<close> ticks of a run: in
  each tick, the size after the spawn phase minus the size after the filter.
\<close>

fun culledTotal :: "nat \<Rightarrow> real \<Rightarrow> real \<Rightarrow> real \<Rightarrow> simState \<Rightarrow> rng \<Rightarrow> nat" where
  "culledTotal 0 w h energyPercent st s = 0"
| "culledTotal (Suc t) w h energyPercent st s =
     (let (spawned, s1) = spawnPhase w h energyPercent (liveParticles st) s;
          (kept, drawn, s2) = filterParticles w energyPercent (frameIndex st) spawned s1
      in (length spawned - length kept) +
         culledTotal t w h energyPercent \<lparr> liveParticles = kept, frameIndex = Suc (frameIndex st) \<rparr> s2)"

text \<open>
  What holds of every particle the factory makes, and is kept by every update: the
  initial energy is not negative, the remaining energy does not exceed it, and the
  normalized distance is not negative.
\<close>

definition particleInv :: "particle \<Rightarrow> bool" where
  "particleInv p =
     (0 \<le> initialEnergy p \<and> remainingEnergy p \<le> initialEnergy p \<and>
      0 \<le> normalizedDistanceFromCenter p)"

text \<open>
  What holds of the 3D state between frames: at most \<open>MAX_PARTICLES\<close> particles, both
  buffers of their full size, a draw range that counts the particles, and in the
  buffers, at offset \<open>j * 3\<close>, the position and the colour of particle \<open>j\<close>.
\<close>

definition frameInv :: "frameState \<Rightarrow> bool" where
  "frameInv st =
     (length (liveParticles3 st) \<le> MAX_PARTICLES \<and>
      length (positionBuffer st) = MAX_PARTICLES * 3 \<and>
      length (colorBuffer st) = MAX_PARTICLES * 3 \<and>
      drawRange st = length (liveParticles3 st) \<and>
      (\<forall>j < drawRange st.
         positionBuffer st ! (j * 3) = vecX (position (liveParticles3 st ! j)) \<and>
         positionBuffer st ! (j * 3 + 1) = vecY (position (liveParticles3 st ! j)) \<and>
         positionBuffer st ! (j * 3 + 2) = vecZ (position (liveParticles3 st ! j)) \<and>
         colorBuffer st ! (j * 3) = colorR (color (liveParticles3 st ! j)) \<and>
         colorBuffer st ! (j * 3 + 1) = colorG (color (liveParticles3 st ! j)) \<and>
         colorBuffer st ! (j * 3 + 2) = colorB (color (liveParticles3 st ! j))))"

section \<open>Concrete inputs\<close>

text \<open>
  A particle of the 2D variant in the middle of an 800 x 600 canvas, at a given life
  fraction of an initial energy of 100.
\<close>

definition particleAt :: "real \<Rightarrow> particle" where
  "particleAt lifeFrac =
     \<lparr> positionX = 400, positionY = 300, velocityX = 0, velocityY = - 3,
       initialEnergy = 100, remainingEnergy = 100 * lifeFrac, lifeFraction = lifeFrac,
       basePixelRadius = 5, normalizedDistanceFromCenter = 0, receivedBurstEnergy = False \<rparr>"

text \<open>
  The particle the factory makes on an 800 x 600 canvas at 100 percent energy when
  every draw is 1/4 (it spawns on the axis, with no burst and no kick), and the same
  particle after one update.
\<close>

definition centreParticle :: particle where
  "centreParticle =
     \<lparr> positionX = 400, positionY = 578.75, velocityX = 0, velocityY = - 6,
       initialEnergy = 110.5, remainingEnergy = 110.5, lifeFraction = 1,
       basePixelRadius = 4.75, normalizedDistanceFromCenter = 0,
       receivedBurstEnergy = False \<rparr>"

definition centreParticleAged :: particle where
  "centreParticleAged =
     \<lparr> positionX = 400, positionY = 572.66, velocityX = 0, velocityY = - 5.9682,
       initialEnergy = 110.5, remainingEnergy = 109.7, lifeFraction = 1097 / 1105,
       basePixelRadius = 4.75, normalizedDistanceFromCenter = 0,
       receivedBurstEnergy = False \<rparr>"

section \<open>Spawn rate and capacity\<close>

text \<open>
  Claim C2. For every valid energy (\<open>energyPercent\<close> in [10,100], that is an energy
  scalar in [0.1,1.0]) the spawn rate is at most the capacity, and both are monotone
  non-decreasing in the energy, in the 2D variant (\<open>spawnPerFrame\<close>,
  \<open>particleCountCap\<close>) and in the 3D variant (\<open>spawnRate\<close>, \<open>particleCap\<close>).
\<close>

theorem spawn_le_capacity_monotone:
  assumes "10 \<le> e1" and "e1 \<le> e2" and "e2 \<le> 100"
  shows "spawnPerFrame e1 \<le> particleCountCap e1 \<and>
         spawnPerFrame e1 \<le> spawnPerFrame e2 \<and>
         particleCountCap e1 \<le> particleCountCap e2 \<and>
         spawnRate (e1 / 100) \<le> particleCap (e1 / 100) \<and>
         spawnRate (e1 / 100) \<le> spawnRate (e2 / 100) \<and>
         particleCap (e1 / 100) \<le> particleCap (e2 / 100)"
proof -
  have pos: "0 \<le> e1" "0 \<le> e2" using assms by linarith+
  have "e1 / 10 \<le> e1 * 3" using pos by simp
  then have a: "spawnPerFrame e1 \<le> particleCountCap e1"
    unfolding spawnPerFrame_def particleCountCap_def
    using floor_mono[of "e1 / 10" "e1 * 3"] by linarith
  have b: "spawnPerFrame e1 \<le> spawnPerFrame e2"
    unfolding spawnPerFrame_def using assms(2) floor_mono[of "e1 / 10" "e2 / 10"] by simp
  have c: "particleCountCap e1 \<le> particleCountCap e2"
    unfolding particleCountCap_def using assms(2) floor_mono[of "e1 * 3" "e2 * 3"] by simp
  have sq: "(e1 / 100)\<^sup>2 \<le> (e2 / 100)\<^sup>2"
    using pos assms(2) by (intro power_mono) simp_all
  have "(e1 / 100)\<^sup>2 * 200 \<le> (e1 / 100)\<^sup>2 * 5500" by simp
  then have d: "spawnRate (e1 / 100) \<le> particleCap (e1 / 100)"
    unfolding spawnRate_def particleCap_def
    using floor_mono[of "(e1 / 100)\<^sup>2 * 200" "(e1 / 100)\<^sup>2 * 5500"] by linarith
  have e: "spawnRate (e1 / 100) \<le> spawnRate (e2 / 100)"
    unfolding spawnRate_def
    using sq floor_mono[of "(e1 / 100)\<^sup>2 * 200" "(e2 / 100)\<^sup>2 * 200"] by simp
  have f: "particleCap (e1 / 100) \<le> particleCap (e2 / 100)"
    unfolding particleCap_def
    using sq floor_mono[of "(e1 / 100)\<^sup>2 * 5500" "(e2 / 100)\<^sup>2 * 5500"] by simp
  from a b c d e f show ?thesis by blast
qed

text \<open>The two ends of the slider: 10 percent and 100 percent.\<close>

theorem spawn_le_capacity_monotone_witness:
  "(10::real) \<le> 10 \<and> (10::real) \<le> 100 \<and> (100::real) \<le> 100 \<and>
   spawnPerFrame 10 = 6 \<and> particleCountCap 10 = 430 \<and>
   spawnPerFrame 100 = 15 \<and> particleCountCap 100 = 700 \<and>
   spawnRate (10 / 100) = 12 \<and> particleCap (10 / 100) = 555 \<and>
   spawnRate (100 / 100) = 210 \<and> particleCap (100 / 100) = 6000 \<and>
   spawnPerFrame 10 \<le> particleCountCap 10 \<and>
   spawnPerFrame 10 \<le> spawnPerFrame 100 \<and>
   particleCountCap 10 \<le> particleCountCap 100 \<and>
   spawnRate (10 / 100) \<le> particleCap (10 / 100) \<and>
   spawnRate (10 / 100) \<le> spawnRate (100 / 100) \<and>
   particleCap (10 / 100) \<le> particleCap (100 / 100)"
  using spawn_le_capacity_monotone[of 10 100]
  by (simp add: spawnPerFrame_def particleCountCap_def spawnRate_def particleCap_def power2_eq_square)

section \<open>The Gaussian sampler\<close>

text \<open>
  Claim C6. For every mean and standard deviation and every pair of uniform draws
  \<open>u1\<close>, \<open>u2\<close> in [0,1) (the next two values of the generator), \<open>gaussianRandom\<close>
  returns \<open>mean + stdDev * sqrt (- 2 ln (max u1 1e-12)) * cos (2 pi u2)\<close> and consumes
  exactly these two draws; the argument of the logarithm is at least \<open>1e-12\<close>, so it
  is positive, and the argument of the square root is not negative.
\<close>

theorem gaussianRandom_box_muller:
  assumes "0 \<le> s 0" and "s 0 < 1" and "0 \<le> s 1" and "s 1 < 1"
  shows "fst (gaussianRandom mean stdDev s) =
           mean + stdDev * (sqrt (- 2 * ln (max (s 0) (1 / 10 ^ 12))) * cos (2 * pi * s 1)) \<and>
         snd (gaussianRandom mean stdDev s) = (\<lambda>n. s (n + 2)) \<and>
         1 / 10 ^ 12 \<le> max (s 0) (1 / 10 ^ 12) \<and>
         0 < max (s 0) (1 / 10 ^ 12) \<and>
         0 \<le> - 2 * ln (max (s 0) (1 / 10 ^ 12))"
proof -
  let ?u1 = "max (s 0) (1 / 10 ^ 12)"
  have pos: "0 < ?u1" by (simp add: max_def)
  have "?u1 \<le> 1" using assms(2) by simp
  then have "ln ?u1 \<le> 0" using pos by (simp only: ln_le_zero_iff)
  then have rad: "0 \<le> - 2 * ln ?u1" by simp
  have val: "fst (gaussianRandom mean stdDev s) =
           mean + stdDev * (sqrt (- 2 * ln ?u1) * cos (2 * pi * s 1))"
    by (simp add: gaussianRandom_def mathRandom_def Let_def)
  have rest: "snd (gaussianRandom mean stdDev s) = (\<lambda>n. s (n + 2))"
    by (simp add: gaussianRandom_def mathRandom_def Let_def)
  from val rest pos rad show ?thesis by simp
qed

text \<open>
  With both draws equal to 1/4, a mean of 400 and a deviation of 15: the cosine is 0
  and the sample is the mean.
\<close>

theorem gaussianRandom_box_muller_witness:
  "(0::real) \<le> quarterDraws 0 \<and> quarterDraws 0 < 1 \<and> 0 \<le> quarterDraws 1 \<and> quarterDraws 1 < 1 \<and>
   fst (gaussianRandom 400 15 quarterDraws) =
     400 + 15 * (sqrt (- 2 * ln (max (1 / 4) (1 / 10 ^ 12))) * cos (2 * pi * (1 / 4))) \<and>
   fst (gaussianRandom 400 15 quarterDraws) = 400"
  using gaussianRandom_box_muller[of quarterDraws 400 15]
  by (simp add: quarterDraws_def)

section \<open>The floor on the spawn spread\<close>

text \<open>
  Claim C9. In every call of \<open>createFireParticle\<close> (createParticle.js and part_001),
  for every energy input, the spawn spread is floored at \<open>1e-3\<close> before it is used:
  the factory's result is the same for any two samplers that agree on the standard
  deviations \<open>Math.max(sd, 1e-3)\<close>, so the sampler is only ever called with a floored
  deviation; and the divisor of \<open>normalizedDistanceFromCenter\<close> is the floored spread,
  which is at least \<open>1e-3\<close> and never 0.
\<close>

theorem spread_floored_before_use:
  assumes "\<forall>m sd r. g m (flooredSpread sd) r = g' m (flooredSpread sd) r"
  shows "1 / 10 ^ 3 \<le> flooredSpread (spawnSpreadPixels energyPercent) \<and>
         1 / 10 ^ 3 \<le> flooredSpread (spawnSpreadUnits energyPercent) \<and>
         flooredSpread (spawnSpreadPixels energyPercent) \<noteq> 0 \<and>
         flooredSpread (spawnSpreadUnits energyPercent) \<noteq> 0 \<and>
         createFireParticle w h energyPercent g s = createFireParticle w h energyPercent g' s \<and>
         createFireParticleZ energyPercent g s = createFireParticleZ energyPercent g' s \<and>
         normalizedDistanceFromCenter (fst (createFireParticle w h energyPercent g s)) *
             flooredSpread (spawnSpreadPixels energyPercent) =
           \<bar>positionX (fst (createFireParticle w h energyPercent g s)) - w / 2\<bar> \<and>
         normalizedDistanceFromCenter (fst (createFireParticleZ energyPercent g s)) *
             flooredSpread (spawnSpreadUnits energyPercent) =
           sqrt ((positionX (fst (createFireParticleZ energyPercent g s)))\<^sup>2 +
                 (positionZ (fst (createFireParticleZ energyPercent g s)))\<^sup>2)"
proof -
  have fl: "1 / 10 ^ 3 \<le> flooredSpread x" for x by (simp add: flooredSpread_def)
  have nz: "flooredSpread x \<noteq> 0" for x using fl[of x] by auto
  have g2: "createFireParticle w h energyPercent g s = createFireParticle w h energyPercent g' s"
    using assms by (simp add: createFireParticle_def)
  have g3: "createFireParticleZ energyPercent g s = createFireParticleZ energyPercent g' s"
    using assms by (simp add: createFireParticleZ_def)
  have d2: "normalizedDistanceFromCenter (fst (createFireParticle w h energyPercent g s)) *
             flooredSpread (spawnSpreadPixels energyPercent) =
           \<bar>positionX (fst (createFireParticle w h energyPercent g s)) - w / 2\<bar>"
    using nz by (simp add: createFireParticle_def Let_def split_beta)
  have d3: "normalizedDistanceFromCenter (fst (createFireParticleZ energyPercent g s)) *
             flooredSpread (spawnSpreadUnits energyPercent) =
           sqrt ((positionX (fst (createFireParticleZ energyPercent g s)))\<^sup>2 +
                 (positionZ (fst (createFireParticleZ energyPercent g s)))\<^sup>2)"
    using nz by (simp add: createFireParticleZ_def Let_def split_beta)
  from fl nz g2 g3 d2 d3 show ?thesis by blast
qed

text \<open>
  At \<open>energyPercent = 200\<close> the spread is negative (-10) and the floor replaces it
  by \<open>1e-3\<close>.
\<close>

theorem spread_floored_before_use_witness:
  "(\<forall>m sd r. gaussianRandom m (flooredSpread sd) r =
       (\<lambda>m sd. gaussianRandom m (max sd (1 / 10 ^ 3))) m (flooredSpread sd) r) \<and>
   spawnSpreadPixels 200 = - 10 \<and> flooredSpread (spawnSpreadPixels 200) = 1 / 10 ^ 3 \<and>
   createFireParticle 800 600 200 gaussianRandom zeroDraws =
     createFireParticle 800 600 200 (\<lambda>m sd. gaussianRandom m (max sd (1 / 10 ^ 3))) zeroDraws"
  using spread_floored_before_use[of gaussianRandom "\<lambda>m sd. gaussianRandom m (max sd (1 / 10 ^ 3))" 200 800 600 zeroDraws]
  by (simp add: flooredSpread_def spawnSpreadPixels_def)

text \<open>
  \<open>spawnParticle\<close> of the 3D component has no such floor: its spread
  \<open>spawnRadius\<close> is at least 0.3 for every energy scalar up to 1, and is 0 at 1.25.
\<close>

lemma spawnRadius_unfloored:
  "(e \<le> 1 \<longrightarrow> 0.3 \<le> spawnRadius e) \<and> spawnRadius 1.25 = 0"
  by (simp add: spawnRadius_def)

section \<open>The colour mappers\<close>

subsection \<open>Ranges of the output channels\<close>

lemma rgb_channels_in_range:
  assumes "10 \<le> ep" and "ep \<le> 100"
  shows "0 \<le> red (computeParticleColorRGBA p ep) \<and> red (computeParticleColorRGBA p ep) \<le> 255 \<and>
         0 \<le> green (computeParticleColorRGBA p ep) \<and> green (computeParticleColorRGBA p ep) \<le> 255 \<and>
         0 \<le> blue (computeParticleColorRGBA p ep) \<and> blue (computeParticleColorRGBA p ep) \<le> 255"
proof -
  consider "ep / 100 > 0.7" | "\<not> ep / 100 > 0.7" "ep / 100 > 0.4" | "\<not> ep / 100 > 0.7" "\<not> ep / 100 > 0.4"
    by blast
  then show ?thesis
  proof cases
    case 1
    then show ?thesis using assms
      by (simp add: computeParticleColorRGBA_def Let_def le_floor_iff floor_le_iff; (simp add: field_simps)?)
  next
    case 2
    then show ?thesis using assms
      by (simp add: computeParticleColorRGBA_def Let_def le_floor_iff floor_le_iff; (simp add: field_simps)?)
  next
    case 3
    then show ?thesis using assms
      by (simp add: computeParticleColorRGBA_def Let_def le_floor_iff floor_le_iff; (simp add: field_simps)?)
  qed
qed

lemma alpha_in_range:
  assumes "0 \<le> lifeFraction p" and "lifeFraction p \<le> 1"
  shows "0 \<le> alpha (computeParticleColorRGBA p ep) \<and> alpha (computeParticleColorRGBA p ep) \<le> 1"
proof -
  have "lifeFraction p powr 0.7 \<le> 1" using assms by (intro powr_le1) simp_all
  moreover have "0 \<le> lifeFraction p powr 0.7" by simp
  ultimately show ?thesis
    by (simp add: computeParticleColorRGBA_def Let_def split_beta)
qed

lemma rgba_depends_on_life_only:
  "lifeFraction q = lifeFraction p \<Longrightarrow> computeParticleColorRGBA q ep = computeParticleColorRGBA p ep"
  by (simp add: computeParticleColorRGBA_def)

lemma lifeBaseColor_nonneg:
  assumes "0 \<le> l" and "l \<le> 1"
  shows "0 \<le> fst (lifeBaseColor l) \<and> 0 \<le> fst (snd (lifeBaseColor l)) \<and> 0 \<le> snd (snd (lifeBaseColor l))"
  using assms by (simp add: lifeBaseColor_def Let_def; (simp add: field_simps)?)

lemma scaled_channel_in_range:
  fixes c0 hot k fb :: real
  assumes "0 \<le> c0" and "0 \<le> hot" and "0 \<le> k" and "0 \<le> fb" and "fb \<le> 1"
  shows "0 \<le> min 1 (c0 + hot * k) * fb \<and> min 1 (c0 + hot * k) * fb \<le> 1"
proof -
  have m0: "0 \<le> min 1 (c0 + hot * k)" using assms by simp
  have m1: "min 1 (c0 + hot * k) \<le> 1" by simp
  have "min 1 (c0 + hot * k) * fb \<le> 1 * 1"
    using m0 m1 assms(4,5) by (intro mult_mono) simp_all
  then show ?thesis using m0 assms(4) by simp
qed

lemma finalBrightness_in_range:
  fixes l e :: real
  assumes "0 \<le> l" and "l \<le> 1" and "0 \<le> e" and "e \<le> 1"
  shows "0 \<le> l powr 0.5 * (0.3 + e powr 1.5 * 0.7) \<and> l powr 0.5 * (0.3 + e powr 1.5 * 0.7) \<le> 1"
proof -
  have l1: "l powr 0.5 \<le> 1" using assms by (intro powr_le1) simp_all
  have e1: "e powr 1.5 \<le> 1" using assms by (intro powr_le1) simp_all
  have e0: "0 \<le> e powr 1.5" by simp
  have b1: "0.3 + e powr 1.5 * 0.7 \<le> 1" using e1 by simp
  have b0: "0 \<le> 0.3 + e powr 1.5 * 0.7" using e0 by simp
  have "l powr 0.5 * (0.3 + e powr 1.5 * 0.7) \<le> 1 * 1"
    using l1 b1 b0 by (intro mult_mono) simp_all
  moreover have "0 \<le> l powr 0.5 * (0.3 + e powr 1.5 * 0.7)" using b0 by simp
  ultimately show ?thesis by simp
qed

lemma updateParticleColor_in_range:
  assumes "0 \<le> l" and "l \<le> 1" and "0 \<le> e" and "e \<le> 1"
  shows "0 \<le> colorR (updateParticleColor c l e) \<and> colorR (updateParticleColor c l e) \<le> 1 \<and>
         0 \<le> colorG (updateParticleColor c l e) \<and> colorG (updateParticleColor c l e) \<le> 1 \<and>
         0 \<le> colorB (updateParticleColor c l e) \<and> colorB (updateParticleColor c l e) \<le> 1"
proof -
  obtain r0 g0 b0 where base: "lifeBaseColor l = (r0, g0, b0)" by (cases "lifeBaseColor l") auto
  with lifeBaseColor_nonneg[OF assms(1,2)] have nn: "0 \<le> r0" "0 \<le> g0" "0 \<le> b0" by simp_all
  have hot: "0 \<le> e powr 1.5 * 1.5 * l" using assms(1) by simp
  note fb = finalBrightness_in_range[OF assms]
  have r: "0 \<le> min 1 (r0 + e powr 1.5 * 1.5 * l * 0.2) * (l powr 0.5 * (0.3 + e powr 1.5 * 0.7)) \<and>
           min 1 (r0 + e powr 1.5 * 1.5 * l * 0.2) * (l powr 0.5 * (0.3 + e powr 1.5 * 0.7)) \<le> 1"
    using nn hot fb by (intro scaled_channel_in_range) simp_all
  have g: "0 \<le> min 1 (g0 + e powr 1.5 * 1.5 * l * 0.2) * (l powr 0.5 * (0.3 + e powr 1.5 * 0.7)) \<and>
           min 1 (g0 + e powr 1.5 * 1.5 * l * 0.2) * (l powr 0.5 * (0.3 + e powr 1.5 * 0.7)) \<le> 1"
    using nn hot fb by (intro scaled_channel_in_range) simp_all
  have b: "0 \<le> min 1 (b0 + e powr 1.5 * 1.5 * l * 1.0) * (l powr 0.5 * (0.3 + e powr 1.5 * 0.7)) \<and>
           min 1 (b0 + e powr 1.5 * 1.5 * l * 1.0) * (l powr 0.5 * (0.3 + e powr 1.5 * 0.7)) \<le> 1"
    using nn hot fb by (intro scaled_channel_in_range) simp_all
  have cr: "colorR (updateParticleColor c l e) =
              min 1 (r0 + e powr 1.5 * 1.5 * l * 0.2) * (l powr 0.5 * (0.3 + e powr 1.5 * 0.7))"
    unfolding updateParticleColor_def Let_def base by simp
  have cg: "colorG (updateParticleColor c l e) =
              min 1 (g0 + e powr 1.5 * 1.5 * l * 0.2) * (l powr 0.5 * (0.3 + e powr 1.5 * 0.7))"
    unfolding updateParticleColor_def Let_def base by simp
  have cb: "colorB (updateParticleColor c l e) =
              min 1 (b0 + e powr 1.5 * 1.5 * l * 1.0) * (l powr 0.5 * (0.3 + e powr 1.5 * 0.7))"
    unfolding updateParticleColor_def Let_def base by simp
  show ?thesis unfolding cr cg cb using r g b by blast
qed

lemma updateParticleColor_ignores_old_colour:
  "updateParticleColor c l e = updateParticleColor c' l e"
  by (simp add: updateParticleColor_def)

lemma between_lower:
  fixes a b t lo :: real
  assumes "lo < a" and "lo < b" and "0 \<le> t" and "t \<le> 1"
  shows "lo < a + t * (b - a)"
proof -
  have e: "a + t * (b - a) - lo = (1 - t) * (a - lo) + t * (b - lo)" by (simp add: algebra_simps)
  show ?thesis
  proof (cases "t = 0")
    case True
    then show ?thesis using assms(1) by simp
  next
    case False
    then have "0 < t * (b - lo)" using assms(2,3) by simp
    moreover have "0 \<le> (1 - t) * (a - lo)" using assms(1,4) by simp
    ultimately have "0 < a + t * (b - a) - lo" unfolding e by linarith
    then show ?thesis by simp
  qed
qed

lemma between_upper:
  fixes a b t hi :: real
  assumes "a \<le> hi" and "b \<le> hi" and "0 \<le> t" and "t \<le> 1"
  shows "a + t * (b - a) \<le> hi"
proof -
  have e: "hi - (a + t * (b - a)) = (1 - t) * (hi - a) + t * (hi - b)" by (simp add: algebra_simps)
  have "0 \<le> (1 - t) * (hi - a)" "0 \<le> t * (hi - b)" using assms by simp_all
  then have "0 \<le> hi - (a + t * (b - a))" unfolding e by linarith
  then show ?thesis by simp
qed

lemma lifeBaseColor_very_high: "0.9 < l \<Longrightarrow> lifeBaseColor l = (1, 1, 1 - (1 - 0.8) * ((l - 0.9) / 0.1))"
  by (simp add: lifeBaseColor_def Let_def)

lemma lifeBaseColor_high:
  "0.7 < l \<Longrightarrow> l \<le> 0.9 \<Longrightarrow>
   lifeBaseColor l = (1, 1 - (1 - 0.6) * ((l - 0.7) / 0.2), 0.8 - 0.8 * ((l - 0.7) / 0.2))"
  by (simp add: lifeBaseColor_def Let_def)

lemma lifeBaseColor_mid:
  "0.4 < l \<Longrightarrow> l \<le> 0.7 \<Longrightarrow> lifeBaseColor l = (1, 0.6 - 0.4 * ((l - 0.4) / 0.3), 0)"
  by (simp add: lifeBaseColor_def Let_def)

lemma lifeBaseColor_low:
  "l \<le> 0.4 \<Longrightarrow> lifeBaseColor l = (1 - (1 - 0.5) * (l / 0.4), 0.2 * (l / 0.4), 0)"
  by (simp add: lifeBaseColor_def Let_def)

lemma lifeBaseColor_linear_in_band:
  assumes "(0.9 < a \<and> 0.9 < b) \<or> (0.7 < a \<and> a \<le> 0.9 \<and> 0.7 < b \<and> b \<le> 0.9) \<or>
           (0.4 < a \<and> a \<le> 0.7 \<and> 0.4 < b \<and> b \<le> 0.7) \<or> (a \<le> 0.4 \<and> b \<le> 0.4)"
    and "0 \<le> t" and "t \<le> 1"
  shows "fst (lifeBaseColor (a + t * (b - a))) =
           fst (lifeBaseColor a) + t * (fst (lifeBaseColor b) - fst (lifeBaseColor a)) \<and>
         fst (snd (lifeBaseColor (a + t * (b - a)))) =
           fst (snd (lifeBaseColor a)) + t * (fst (snd (lifeBaseColor b)) - fst (snd (lifeBaseColor a))) \<and>
         snd (snd (lifeBaseColor (a + t * (b - a)))) =
           snd (snd (lifeBaseColor a)) + t * (snd (snd (lifeBaseColor b)) - snd (snd (lifeBaseColor a)))"
proof -
  let ?m = "a + t * (b - a)"
  consider (vh) "0.9 < a" "0.9 < b"
    | (h) "0.7 < a" "a \<le> 0.9" "0.7 < b" "b \<le> 0.9"
    | (m) "0.4 < a" "a \<le> 0.7" "0.4 < b" "b \<le> 0.7"
    | (lo) "a \<le> 0.4" "b \<le> 0.4"
    using assms(1) by blast
  then show ?thesis
  proof cases
    case vh
    have "0.9 < ?m" using vh assms(2,3) by (rule between_lower)
    then show ?thesis using vh
      by (simp only: lifeBaseColor_very_high fst_conv snd_conv) (simp add: field_simps)
  next
    case h
    have "0.7 < ?m" using h(1,3) assms(2,3) by (rule between_lower)
    moreover have "?m \<le> 0.9" using h(2,4) assms(2,3) by (rule between_upper)
    ultimately show ?thesis using h
      by (simp only: lifeBaseColor_high fst_conv snd_conv) (simp add: field_simps)
  next
    case m
    have "0.4 < ?m" using m(1,3) assms(2,3) by (rule between_lower)
    moreover have "?m \<le> 0.7" using m(2,4) assms(2,3) by (rule between_upper)
    ultimately show ?thesis using m
      by (simp only: lifeBaseColor_mid fst_conv snd_conv) (simp add: field_simps)
  next
    case lo
    have "?m \<le> 0.4" using lo assms(2,3) by (rule between_upper)
    then show ?thesis using lo
      by (simp only: lifeBaseColor_low fst_conv snd_conv) (simp add: field_simps)
  qed
qed

lemma lifeBaseColor_closed_very_high:
  "0.9 < l \<Longrightarrow> l \<le> 1 \<Longrightarrow>
     (case lifeBaseColor l of (r, g, b) \<Rightarrow> r = 1 \<and> g = 1 \<and> 0.8 \<le> b \<and> b \<le> 1)"
  by (simp add: lifeBaseColor_def Let_def; (simp add: field_simps)?)

lemma lifeBaseColor_closed_high:
  "0.7 < l \<Longrightarrow> l \<le> 0.9 \<Longrightarrow>
     (case lifeBaseColor l of (r, g, b) \<Rightarrow> r = 1 \<and> 0.6 \<le> g \<and> g \<le> 1 \<and> 0 \<le> b \<and> b \<le> 0.8)"
  by (simp add: lifeBaseColor_def Let_def; (simp add: field_simps)?)

lemma lifeBaseColor_closed_mid:
  "0.4 < l \<Longrightarrow> l \<le> 0.7 \<Longrightarrow>
     (case lifeBaseColor l of (r, g, b) \<Rightarrow> r = 1 \<and> 0.2 \<le> g \<and> g \<le> 0.6 \<and> b = 0)"
  by (simp add: lifeBaseColor_def Let_def; (simp add: field_simps)?)

lemma lifeBaseColor_closed_low:
  "0 \<le> l \<Longrightarrow> l \<le> 0.4 \<Longrightarrow>
     (case lifeBaseColor l of (r, g, b) \<Rightarrow> 0.5 \<le> r \<and> r \<le> 1 \<and> 0 \<le> g \<and> g \<le> 0.2 \<and> b = 0)"
  by (simp add: lifeBaseColor_def Let_def; (simp add: field_simps)?)

lemma rgb_2d_high_band:
  assumes "70 < ep" and "ep \<le> 100"
  shows "red (computeParticleColorRGBA p ep) = \<lfloor>120 + ((ep / 100 - 0.7) / 0.3) * 135\<rfloor> \<and>
         green (computeParticleColorRGBA p ep) = \<lfloor>180 + ((ep / 100 - 0.7) / 0.3) * 75\<rfloor> \<and>
         blue (computeParticleColorRGBA p ep) = 255 \<and>
         120 \<le> red (computeParticleColorRGBA p ep) \<and> red (computeParticleColorRGBA p ep) \<le> 255 \<and>
         180 \<le> green (computeParticleColorRGBA p ep) \<and> green (computeParticleColorRGBA p ep) \<le> 255"
  using assms
  by (simp add: computeParticleColorRGBA_def Let_def le_floor_iff floor_le_iff; (simp add: field_simps)?)

lemma rgb_2d_mid_band:
  assumes "40 < ep" and "ep \<le> 70"
  shows "red (computeParticleColorRGBA p ep) = 255 \<and>
         green (computeParticleColorRGBA p ep) = \<lfloor>220 - ((ep / 100 - 0.4) / 0.3) * 60\<rfloor> \<and>
         blue (computeParticleColorRGBA p ep) = \<lfloor>30 + ((ep / 100 - 0.4) / 0.3) * 170\<rfloor> \<and>
         160 \<le> green (computeParticleColorRGBA p ep) \<and> green (computeParticleColorRGBA p ep) \<le> 220 \<and>
         30 \<le> blue (computeParticleColorRGBA p ep) \<and> blue (computeParticleColorRGBA p ep) \<le> 200"
  using assms
  by (simp add: computeParticleColorRGBA_def Let_def le_floor_iff floor_le_iff; (simp add: field_simps)?)

lemma rgb_2d_low_band:
  assumes "10 \<le> ep" and "ep \<le> 40"
  shows "red (computeParticleColorRGBA p ep) = \<lfloor>220 + ((ep / 100) / 0.4) * 35\<rfloor> \<and>
         green (computeParticleColorRGBA p ep) = \<lfloor>40 + ((ep / 100) / 0.4) * 180\<rfloor> \<and>
         blue (computeParticleColorRGBA p ep) = \<lfloor>10 + ((ep / 100) / 0.4) * 20\<rfloor> \<and>
         220 \<le> red (computeParticleColorRGBA p ep) \<and> red (computeParticleColorRGBA p ep) \<le> 255 \<and>
         40 \<le> green (computeParticleColorRGBA p ep) \<and> green (computeParticleColorRGBA p ep) \<le> 220 \<and>
         10 \<le> blue (computeParticleColorRGBA p ep) \<and> blue (computeParticleColorRGBA p ep) \<le> 30"
  using assms
  by (simp add: computeParticleColorRGBA_def Let_def le_floor_iff floor_le_iff; (simp add: field_simps)?)

lemma updateParticleColor_dead: "updateParticleColor c 0 e = Color 0 0 0"
  by (simp add: updateParticleColor_def lifeBaseColor_def Let_def)

text \<open>The base colour of the 3D variant at the ends of its bands.\<close>

lemma lifeBaseColor_at_band_ends:
  "lifeBaseColor 1 = (1, 1, 0.8)" "lifeBaseColor 0.9 = (1, 0.6, 0)"
  "lifeBaseColor 0.7 = (1, 0.2, 0)" "lifeBaseColor 0.4 = (0.5, 0.2, 0)"
  "lifeBaseColor 0 = (1, 0, 0)"
  by (simp_all add: lifeBaseColor_def Let_def)

subsection \<open>Purity and ranges\<close>

text \<open>
  Claim C7. The colour mapper is a function of \<open>(lifeFraction, energy)\<close> only: the 2D
  mapper gives the same output for two particles with the same life fraction, whatever
  their other fields, and the 3D mapper gives the same output whatever the colour
  object held before. For a life fraction in [0,1] and an energy in [10,100] percent,
  the 2D channels are in [0,255] with alpha in [0,1], and the 3D channels are in [0,1].
\<close>

theorem colour_mapper_pure_in_range:
  assumes "10 \<le> ep" and "ep \<le> 100"
    and "0 \<le> lifeFraction p" and "lifeFraction p \<le> 1"
    and "lifeFraction q = lifeFraction p"
  shows "computeParticleColorRGBA q ep = computeParticleColorRGBA p ep \<and>
         0 \<le> red (computeParticleColorRGBA p ep) \<and> red (computeParticleColorRGBA p ep) \<le> 255 \<and>
         0 \<le> green (computeParticleColorRGBA p ep) \<and> green (computeParticleColorRGBA p ep) \<le> 255 \<and>
         0 \<le> blue (computeParticleColorRGBA p ep) \<and> blue (computeParticleColorRGBA p ep) \<le> 255 \<and>
         0 \<le> alpha (computeParticleColorRGBA p ep) \<and> alpha (computeParticleColorRGBA p ep) \<le> 1 \<and>
         updateParticleColor c (lifeFraction p) (ep / 100) =
           updateParticleColor c' (lifeFraction p) (ep / 100) \<and>
         0 \<le> colorR (updateParticleColor c (lifeFraction p) (ep / 100)) \<and>
         colorR (updateParticleColor c (lifeFraction p) (ep / 100)) \<le> 1 \<and>
         0 \<le> colorG (updateParticleColor c (lifeFraction p) (ep / 100)) \<and>
         colorG (updateParticleColor c (lifeFraction p) (ep / 100)) \<le> 1 \<and>
         0 \<le> colorB (updateParticleColor c (lifeFraction p) (ep / 100)) \<and>
         colorB (updateParticleColor c (lifeFraction p) (ep / 100)) \<le> 1"
proof -
  have e: "0 \<le> ep / 100" "ep / 100 \<le> 1" using assms(1,2) by simp_all
  note a = rgba_depends_on_life_only[OF assms(5), of ep]
  note b = rgb_channels_in_range[OF assms(1,2), of p]
  note c = alpha_in_range[OF assms(3,4), of ep]
  note d = updateParticleColor_ignores_old_colour[of c "lifeFraction p" "ep / 100" c']
  note f = updateParticleColor_in_range[OF assms(3,4) e, of c]
  from a b c d f show ?thesis by blast
qed

text \<open>
  A fresh particle at full energy: white at alpha 0.9 in 2D, white in 3D; the second
  particle differs from the first in its position only.
\<close>

theorem colour_mapper_pure_in_range_witness:
  "(10::real) \<le> 100 \<and> (100::real) \<le> 100 \<and>
   0 \<le> lifeFraction (particleAt 1) \<and> lifeFraction (particleAt 1) \<le> 1 \<and>
   lifeFraction ((particleAt 1)\<lparr>positionX := 0\<rparr>) = lifeFraction (particleAt 1) \<and>
   computeParticleColorRGBA ((particleAt 1)\<lparr>positionX := 0\<rparr>) 100 =
     computeParticleColorRGBA (particleAt 1) 100 \<and>
   computeParticleColorRGBA (particleAt 1) 100 = \<lparr>red = 255, green = 255, blue = 255, alpha = 9 / 10\<rparr> \<and>
   updateParticleColor (Color 0 0 0) (lifeFraction (particleAt 1)) (100 / 100) = Color 1 1 1 \<and>
   colorR (updateParticleColor (Color 0 0 0) (lifeFraction (particleAt 1)) (100 / 100)) \<le> 1"
  using colour_mapper_pure_in_range[of 100 "particleAt 1" "(particleAt 1)\<lparr>positionX := 0\<rparr>"
      "Color 0 0 0" "Color 0 0 0"]
  by (simp add: particleAt_def computeParticleColorRGBA_def updateParticleColor_def
      lifeBaseColor_def Let_def)

subsection \<open>Bands\<close>

text \<open>
  Claim C3, as stated, fails in the 2D variant: at 50 percent energy a particle near
  death (life fraction 0.05) and a fresh one (life fraction 1) both get the
  yellow-orange (255, 200, 86); the dying particle is not red or dark, and the RGB
  channels are not banded on the life fraction.
\<close>

theorem rgb_2d_same_for_dying_and_fresh:
  "red (computeParticleColorRGBA (particleAt 0.05) 50) = 255 \<and>
   green (computeParticleColorRGBA (particleAt 0.05) 50) = 200 \<and>
   blue (computeParticleColorRGBA (particleAt 0.05) 50) = 86 \<and>
   red (computeParticleColorRGBA (particleAt 1) 50) = 255 \<and>
   green (computeParticleColorRGBA (particleAt 1) 50) = 200 \<and>
   blue (computeParticleColorRGBA (particleAt 1) 50) = 86"
  by (simp add: computeParticleColorRGBA_def particleAt_def Let_def)

text \<open>
  Claim C3, amended. In the 3D variant the base colour of \<open>updateParticleColor\<close> is
  banded on the life fraction, with thresholds 0.9, 0.7 and 0.4, and piecewise linear:
  in (0.9, 1] it lies between white and bright yellow (red and green 1, blue in
  [0.8, 1]), in (0.7, 0.9] between bright yellow and orange (red 1, green in [0.6, 1],
  blue in [0, 0.8]), in (0.4, 0.7] between orange and red (red 1, green in [0.2, 0.6],
  blue 0), in [0, 0.4] between red and dark red (red in [0.5, 1], green in [0, 0.2],
  blue 0); between two life fractions of the same band every channel is interpolated
  linearly. The output is that base colour, raised by the energy's hotness and scaled
  by a brightness that makes a dead particle black. In the 2D variant the RGB channels
  of \<open>computeParticleColorRGBA\<close> do not depend on the particle; they are banded on the
  energy scalar, each the floor of a linear ramp: above 0.7 red in [120, 255], green
  in [180, 255], blue 255; in (0.4, 0.7] red 255, green in [160, 220], blue in
  [30, 200]; from 0.1 to 0.4 red in [220, 255], green in [40, 220], blue in [10, 30].
  Only alpha, \<open>lifeFraction powr 0.7 * 0.9\<close>, depends on the life fraction.
\<close>

theorem colour_bands:
  assumes "0.9 < lv" and "lv \<le> 1" and "0.7 < lh" and "lh \<le> 0.9"
    and "0.4 < lm" and "lm \<le> 0.7" and "0 \<le> ll" and "ll \<le> 0.4"
    and "(0.9 < a \<and> 0.9 < b) \<or> (0.7 < a \<and> a \<le> 0.9 \<and> 0.7 < b \<and> b \<le> 0.9) \<or>
         (0.4 < a \<and> a \<le> 0.7 \<and> 0.4 < b \<and> b \<le> 0.7) \<or> (a \<le> 0.4 \<and> b \<le> 0.4)"
    and "0 \<le> t" and "t \<le> 1"
    and "70 < eh" and "eh \<le> 100" and "40 < em" and "em \<le> 70" and "10 \<le> el" and "el \<le> 40"
  shows "(case lifeBaseColor lv of (r, g, b) \<Rightarrow> r = 1 \<and> g = 1 \<and> 0.8 \<le> b \<and> b \<le> 1) \<and>
         (case lifeBaseColor lh of (r, g, b) \<Rightarrow> r = 1 \<and> 0.6 \<le> g \<and> g \<le> 1 \<and> 0 \<le> b \<and> b \<le> 0.8) \<and>
         (case lifeBaseColor lm of (r, g, b) \<Rightarrow> r = 1 \<and> 0.2 \<le> g \<and> g \<le> 0.6 \<and> b = 0) \<and>
         (case lifeBaseColor ll of (r, g, b) \<Rightarrow> 0.5 \<le> r \<and> r \<le> 1 \<and> 0 \<le> g \<and> g \<le> 0.2 \<and> b = 0) \<and>
         fst (lifeBaseColor (a + t * (b - a))) =
           fst (lifeBaseColor a) + t * (fst (lifeBaseColor b) - fst (lifeBaseColor a)) \<and>
         fst (snd (lifeBaseColor (a + t * (b - a)))) =
           fst (snd (lifeBaseColor a)) + t * (fst (snd (lifeBaseColor b)) - fst (snd (lifeBaseColor a))) \<and>
         snd (snd (lifeBaseColor (a + t * (b - a)))) =
           snd (snd (lifeBaseColor a)) + t * (snd (snd (lifeBaseColor b)) - snd (snd (lifeBaseColor a))) \<and>
         updateParticleColor c l e =
           (case lifeBaseColor l of (r, g, b) \<Rightarrow>
              Color (min 1 (r + e powr 1.5 * 1.5 * l * 0.2) * (l powr 0.5 * (0.3 + e powr 1.5 * 0.7)))
                    (min 1 (g + e powr 1.5 * 1.5 * l * 0.2) * (l powr 0.5 * (0.3 + e powr 1.5 * 0.7)))
                    (min 1 (b + e powr 1.5 * 1.5 * l * 1.0) * (l powr 0.5 * (0.3 + e powr 1.5 * 0.7)))) \<and>
         updateParticleColor c 0 e = Color 0 0 0 \<and>
         red (computeParticleColorRGBA p ep) = red (computeParticleColorRGBA q ep) \<and>
         green (computeParticleColorRGBA p ep) = green (computeParticleColorRGBA q ep) \<and>
         blue (computeParticleColorRGBA p ep) = blue (computeParticleColorRGBA q ep) \<and>
         alpha (computeParticleColorRGBA p ep) = lifeFraction p powr 0.7 * 0.9 \<and>
         (red (computeParticleColorRGBA p eh) = \<lfloor>120 + ((eh / 100 - 0.7) / 0.3) * 135\<rfloor> \<and>
          green (computeParticleColorRGBA p eh) = \<lfloor>180 + ((eh / 100 - 0.7) / 0.3) * 75\<rfloor> \<and>
          blue (computeParticleColorRGBA p eh) = 255 \<and>
          120 \<le> red (computeParticleColorRGBA p eh) \<and> red (computeParticleColorRGBA p eh) \<le> 255 \<and>
          180 \<le> green (computeParticleColorRGBA p eh) \<and> green (computeParticleColorRGBA p eh) \<le> 255) \<and>
         (red (computeParticleColorRGBA p em) = 255 \<and>
          green (computeParticleColorRGBA p em) = \<lfloor>220 - ((em / 100 - 0.4) / 0.3) * 60\<rfloor> \<and>
          blue (computeParticleColorRGBA p em) = \<lfloor>30 + ((em / 100 - 0.4) / 0.3) * 170\<rfloor> \<and>
          160 \<le> green (computeParticleColorRGBA p em) \<and> green (computeParticleColorRGBA p em) \<le> 220 \<and>
          30 \<le> blue (computeParticleColorRGBA p em) \<and> blue (computeParticleColorRGBA p em) \<le> 200) \<and>
         (red (computeParticleColorRGBA p el) = \<lfloor>220 + ((el / 100) / 0.4) * 35\<rfloor> \<and>
          green (computeParticleColorRGBA p el) = \<lfloor>40 + ((el / 100) / 0.4) * 180\<rfloor> \<and>
          blue (computeParticleColorRGBA p el) = \<lfloor>10 + ((el / 100) / 0.4) * 20\<rfloor> \<and>
          220 \<le> red (computeParticleColorRGBA p el) \<and> red (computeParticleColorRGBA p el) \<le> 255 \<and>
          40 \<le> green (computeParticleColorRGBA p el) \<and> green (computeParticleColorRGBA p el) \<le> 220 \<and>
          10 \<le> blue (computeParticleColorRGBA p el) \<and> blue (computeParticleColorRGBA p el) \<le> 30)"
proof -
  note b1 = lifeBaseColor_closed_very_high[OF assms(1,2)]
  note b2 = lifeBaseColor_closed_high[OF assms(3,4)]
  note b3 = lifeBaseColor_closed_mid[OF assms(5,6)]
  note b4 = lifeBaseColor_closed_low[OF assms(7,8)]
  note lin = lifeBaseColor_linear_in_band[OF assms(9,10,11)]
  have out: "updateParticleColor c l e =
           (case lifeBaseColor l of (r, g, b) \<Rightarrow>
              Color (min 1 (r + e powr 1.5 * 1.5 * l * 0.2) * (l powr 0.5 * (0.3 + e powr 1.5 * 0.7)))
                    (min 1 (g + e powr 1.5 * 1.5 * l * 0.2) * (l powr 0.5 * (0.3 + e powr 1.5 * 0.7)))
                    (min 1 (b + e powr 1.5 * 1.5 * l * 1.0) * (l powr 0.5 * (0.3 + e powr 1.5 * 0.7))))"
    by (simp add: updateParticleColor_def Let_def split_beta)
  have rgb: "red (computeParticleColorRGBA p ep) = red (computeParticleColorRGBA q ep)"
    "green (computeParticleColorRGBA p ep) = green (computeParticleColorRGBA q ep)"
    "blue (computeParticleColorRGBA p ep) = blue (computeParticleColorRGBA q ep)"
    by (simp_all add: computeParticleColorRGBA_def Let_def split_beta)
  have al: "alpha (computeParticleColorRGBA p ep) = lifeFraction p powr 0.7 * 0.9"
    by (simp add: computeParticleColorRGBA_def Let_def split_beta)
  note h = rgb_2d_high_band[OF assms(12,13), of p]
  note m = rgb_2d_mid_band[OF assms(14,15), of p]
  note lo = rgb_2d_low_band[OF assms(16,17), of p]
  from b1 b2 b3 b4 lin show ?thesis
    using out updateParticleColor_dead[of c e] rgb al h m lo by blast
qed

text \<open>
  One life fraction in each band of the 3D base colour, the interpolation half way
  between 0.75 and 0.85, and one energy in each band of the 2D colour.
\<close>

theorem colour_bands_witness:
  "(0.9::real) < 0.95 \<and> (0.95::real) \<le> 1 \<and> (0.7::real) < 0.8 \<and> (0.8::real) \<le> 0.9 \<and>
   (0.4::real) < 0.55 \<and> (0.55::real) \<le> 0.7 \<and> (0::real) \<le> 0.2 \<and> (0.2::real) \<le> 0.4 \<and>
   (0.7::real) < 0.75 \<and> (0.75::real) \<le> 0.9 \<and> (0.7::real) < 0.85 \<and> (0.85::real) \<le> 0.9 \<and>
   (0::real) \<le> 0.5 \<and> (0.5::real) \<le> 1 \<and>
   (70::real) < 100 \<and> (40::real) < 50 \<and> (50::real) \<le> 70 \<and> (10::real) \<le> 10 \<and> (10::real) \<le> 40 \<and>
   lifeBaseColor 0.95 = (1, 1, 0.9) \<and>
   lifeBaseColor 0.8 = (1, 0.8, 0.4) \<and>
   lifeBaseColor 0.55 = (1, 0.4, 0) \<and>
   lifeBaseColor 0.2 = (0.75, 0.1, 0) \<and>
   lifeBaseColor 0.75 = (1, 0.9, 0.6) \<and>
   lifeBaseColor 0.85 = (1, 0.7, 0.2) \<and>
   lifeBaseColor (0.75 + 0.5 * (0.85 - 0.75)) = (1, 0.8, 0.4) \<and>
   updateParticleColor (Color 1 1 1) 0 1 = Color 0 0 0 \<and>
   red (computeParticleColorRGBA (particleAt 1) 100) = 255 \<and>
   green (computeParticleColorRGBA (particleAt 1) 100) = 255 \<and>
   blue (computeParticleColorRGBA (particleAt 1) 100) = 255 \<and>
   red (computeParticleColorRGBA (particleAt 1) 50) = 255 \<and>
   green (computeParticleColorRGBA (particleAt 1) 50) = 200 \<and>
   blue (computeParticleColorRGBA (particleAt 1) 50) = 86 \<and>
   red (computeParticleColorRGBA (particleAt 1) 10) = 228 \<and>
   green (computeParticleColorRGBA (particleAt 1) 10) = 85 \<and>
   blue (computeParticleColorRGBA (particleAt 1) 10) = 15"
  using colour_bands[where lv = "0.95" and lh = "0.8" and lm = "0.55" and ll = "0.2"
      and a = "0.75" and b = "0.85" and t = "0.5" and eh = 100 and em = 50 and el = 10
      and c = "Color 1 1 1" and l = 0 and e = 1 and p = "particleAt 1" and q = "particleAt 0"
      and ep = 50]
  by (simp add: lifeBaseColor_def Let_def updateParticleColor_def computeParticleColorRGBA_def
      particleAt_def)

section \<open>The simulation step of the 2D variant\<close>

subsection \<open>The generator stays valid\<close>

lemma validRng_mathRandom:
  "validRng s \<Longrightarrow> validRng (snd (mathRandom s)) \<and> 0 \<le> fst (mathRandom s) \<and> fst (mathRandom s) < 1"
  by (simp add: validRng_def mathRandom_def)

lemma validRng_gaussianRandom: "validRng s \<Longrightarrow> validRng (snd (gaussianRandom m sd s))"
  by (simp add: gaussianRandom_def mathRandom_def validRng_def Let_def)

lemma validRng_createFireParticle:
  "validRng s \<Longrightarrow> validRng (snd (createFireParticle w h ep gaussianRandom s))"
  by (simp add: createFireParticle_def gaussianRandom_def mathRandom_def validRng_def Let_def split_beta)

lemma validRng_updateParticle:
  "validRng s \<Longrightarrow> validRng (snd (updateParticle w ep f p s))"
  by (simp add: updateParticle_def mathRandom_def validRng_def Let_def split_beta)

subsection \<open>The factory\<close>

lemma centerEnergyBias_nonneg: "0 \<le> centerEnergyBias nd bonus"
  by (simp add: centerEnergyBias_def)

lemma flooredSpread_pos: "0 < flooredSpread x"
  by (simp add: flooredSpread_def max_def)

lemma createFireParticle_fresh:
  "remainingEnergy (fst (createFireParticle w h ep g s)) = initialEnergy (fst (createFireParticle w h ep g s)) \<and>
   lifeFraction (fst (createFireParticle w h ep g s)) = 1 \<and>
   0 \<le> normalizedDistanceFromCenter (fst (createFireParticle w h ep g s))"
  using flooredSpread_pos[of "spawnSpreadPixels ep"]
  by (simp add: createFireParticle_def Let_def split_beta)

lemma createFireParticle_energy_nonneg:
  assumes "validRng s" and "0 \<le> ep"
  shows "0 \<le> initialEnergy (fst (createFireParticle w h ep gaussianRandom s))"
proof -
  have "\<exists>nd bonus n. initialEnergy (fst (createFireParticle w h ep gaussianRandom s)) =
          (40 + ep / 100 * 90) * centerEnergyBias nd bonus * (0.7 + s n * 0.6)"
    by (simp add: createFireParticle_def gaussianRandom_def mathRandom_def Let_def split_beta) blast
  then obtain nd bonus n where e: "initialEnergy (fst (createFireParticle w h ep gaussianRandom s)) =
          (40 + ep / 100 * 90) * centerEnergyBias nd bonus * (0.7 + s n * 0.6)" by blast
  have "0 \<le> s n" using assms(1) by (simp add: validRng_def)
  then have "0 \<le> 0.7 + s n * 0.6" by simp
  moreover have "0 \<le> 40 + ep / 100 * 90" using assms(2) by simp
  ultimately show ?thesis unfolding e using centerEnergyBias_nonneg[of nd bonus] by simp
qed

lemma createFireParticle_inv:
  assumes "validRng s" and "0 \<le> ep"
  shows "particleInv (fst (createFireParticle w h ep gaussianRandom s))"
  using createFireParticle_energy_nonneg[OF assms, of w h] createFireParticle_fresh[of w h ep gaussianRandom s]
  by (simp add: particleInv_def)

subsection \<open>The update of one particle\<close>

lemma updateParticle_fields:
  "remainingEnergy (fst (updateParticle w ep f p s)) = remainingEnergy p - actualEnergyLoss ep p"
  "initialEnergy (fst (updateParticle w ep f p s)) = initialEnergy p"
  "normalizedDistanceFromCenter (fst (updateParticle w ep f p s)) = normalizedDistanceFromCenter p"
  "receivedBurstEnergy (fst (updateParticle w ep f p s)) = receivedBurstEnergy p"
  "lifeFraction (fst (updateParticle w ep f p s)) =
     max 0 ((remainingEnergy p - actualEnergyLoss ep p) / initialEnergy p)"
  by (simp_all add: updateParticle_def Let_def split_beta)

lemma actualEnergyLoss_updateParticle:
  "actualEnergyLoss ep (fst (updateParticle w ep f p s)) = actualEnergyLoss ep p"
  by (simp add: actualEnergyLoss_def updateParticle_fields)

lemma actualEnergyLoss_lower:
  assumes "ep \<le> 100" and "0 \<le> normalizedDistanceFromCenter p"
  shows "0.8 \<le> actualEnergyLoss ep p"
proof -
  define B where "B = 0.8 + (1 - ep / 100) * 1.2"
  define P where "P = 1 + (if receivedBurstEnergy p then 0 else normalizedDistanceFromCenter p * 0.3)"
  have eq: "actualEnergyLoss ep p = B * P"
    by (simp add: actualEnergyLoss_def Let_def B_def P_def)
  have b: "0.8 \<le> B" using assms(1) by (simp add: B_def)
  have p: "1 \<le> P" using assms(2) by (simp add: P_def)
  have "B * 1 \<le> B * P" using b p by (intro mult_left_mono) simp_all
  then show ?thesis unfolding eq using b by linarith
qed

lemma updateParticle_inv:
  assumes "ep \<le> 100" and "particleInv p"
  shows "particleInv (fst (updateParticle w ep f p s)) \<and>
         remainingEnergy (fst (updateParticle w ep f p s)) < initialEnergy p"
  using assms actualEnergyLoss_lower[of ep p]
  by (simp add: particleInv_def updateParticle_fields)

text \<open>
  Where the divisor \<open>initialEnergy\<close> is 0, the dividend is negative: the source computes
  \<open>Math.max(0, -Infinity) = 0\<close>, the value of the model.
\<close>

lemma updateParticle_zero_initial:
  assumes "ep \<le> 100" and "particleInv p" and "initialEnergy p = 0"
  shows "remainingEnergy (fst (updateParticle w ep f p s)) < 0 \<and>
         lifeFraction (fst (updateParticle w ep f p s)) = 0"
  using assms actualEnergyLoss_lower[of ep p]
  by (simp add: particleInv_def updateParticle_fields)

lemma updateParticle_life:
  assumes "ep \<le> 100" and "particleInv p"
  shows "0 \<le> lifeFraction (fst (updateParticle w ep f p s)) \<and>
         lifeFraction (fst (updateParticle w ep f p s)) \<le> 1 \<and>
         (0 < remainingEnergy (fst (updateParticle w ep f p s)) \<longrightarrow>
            0 < lifeFraction (fst (updateParticle w ep f p s))) \<and>
         (lifeFraction (fst (updateParticle w ep f p s)) = 0 \<longrightarrow>
            remainingEnergy (fst (updateParticle w ep f p s)) \<le> 0)"
proof -
  let ?r = "remainingEnergy p - actualEnergyLoss ep p"
  have lt: "?r < initialEnergy p"
    using assms actualEnergyLoss_lower[of ep p] by (simp add: particleInv_def)
  have i0: "0 \<le> initialEnergy p" using assms(2) by (simp add: particleInv_def)
  have le1: "?r / initialEnergy p \<le> 1"
  proof (cases "initialEnergy p = 0")
    case True then show ?thesis by simp
  next
    case False
    then have "0 < initialEnergy p" using i0 by simp
    then show ?thesis using lt by (simp add: divide_le_eq)
  qed
  have pos: "0 < ?r \<Longrightarrow> 0 < ?r / initialEnergy p"
  proof -
    assume a: "0 < ?r"
    then have "0 < initialEnergy p" using lt by linarith
    then show ?thesis using a by simp
  qed
  have zero: "max 0 (?r / initialEnergy p) = 0 \<Longrightarrow> ?r \<le> 0"
  proof (rule ccontr)
    assume m: "max 0 (?r / initialEnergy p) = 0" and n: "\<not> ?r \<le> 0"
    then have "0 < ?r / initialEnergy p" using pos by simp
    then show False using m by linarith
  qed
  show ?thesis
    unfolding updateParticle_fields using le1 pos zero by (auto simp: max_def)
qed

subsection \<open>The filter\<close>

lemma filterParticles_kept:
  "filterParticles w ep f ps s = (kept, drawn, s') \<Longrightarrow>
     (\<forall>q \<in> set kept. onScreen w q \<and> (\<exists>p \<in> set ps. \<exists>s0. q = fst (updateParticle w ep f p s0))) \<and>
     drawn = map (emitParticle ep) kept \<and> length kept \<le> length ps"
proof (induction ps arbitrary: s kept drawn s')
  case Nil
  then show ?case by simp
next
  case (Cons p ps)
  obtain p' s1 where u: "updateParticle w ep f p s = (p', s1)" by (cases "updateParticle w ep f p s")
  obtain k d s2 where r: "filterParticles w ep f ps s1 = (k, d, s2)"
    by (cases "filterParticles w ep f ps s1") auto
  note ih = Cons.IH[OF r]
  have p': "p' = fst (updateParticle w ep f p s)" using u by simp
  show ?case
  proof (cases "onScreen w p'")
    case True
    with Cons.prems u r have "kept = p' # k" "drawn = emitParticle ep p' # d" by simp_all
    then show ?thesis using ih True p' by auto
  next
    case False
    with Cons.prems u r have "kept = k" "drawn = d" by simp_all
    then show ?thesis using ih by auto
  qed
qed

lemma validRng_filterParticles:
  "validRng s \<Longrightarrow> validRng (snd (snd (filterParticles w ep f ps s)))"
proof (induction ps arbitrary: s)
  case Nil
  then show ?case by simp
next
  case (Cons p ps)
  have "validRng (snd (updateParticle w ep f p s))" using Cons.prems by (rule validRng_updateParticle)
  from Cons.IH[OF this] show ?case by (simp add: split_beta Let_def)
qed

subsection \<open>The spawn loop\<close>

lemma spawnLoop_facts:
  assumes "validRng s" and "0 \<le> ep" and "\<forall>p \<in> set ps. particleInv p"
  shows "validRng (snd (spawnLoop n w h ep ps s)) \<and>
         (\<forall>p \<in> set (fst (spawnLoop n w h ep ps s)). particleInv p)"
  using assms
proof (induction n arbitrary: ps s)
  case 0
  then show ?case by simp
next
  case (Suc n)
  show ?case
  proof (cases "int (length ps) < particleCountCap ep")
    case True
    let ?c = "createFireParticle w h ep gaussianRandom s"
    have v: "validRng (snd ?c)" using Suc.prems(1) by (rule validRng_createFireParticle)
    have i: "\<forall>p \<in> set (ps @ [fst ?c]). particleInv p"
      using Suc.prems createFireParticle_inv[of s ep w h] by simp
    from Suc.IH[OF v Suc.prems(2) i] True show ?thesis by (simp add: split_beta)
  next
    case False
    with Suc.IH[OF Suc.prems] show ?thesis by simp
  qed
qed

lemma spawnLoop_pred:
  assumes "validRng s" and "\<forall>p \<in> set ps. P p"
    and "\<And>s'. validRng s' \<Longrightarrow> P (fst (createFireParticle w h ep gaussianRandom s'))"
  shows "\<forall>p \<in> set (fst (spawnLoop n w h ep ps s)). P p"
  using assms(1,2)
proof (induction n arbitrary: ps s)
  case 0
  then show ?case by simp
next
  case (Suc n)
  show ?case
  proof (cases "int (length ps) < particleCountCap ep")
    case True
    let ?c = "createFireParticle w h ep gaussianRandom s"
    have v: "validRng (snd ?c)" using Suc.prems(1) by (rule validRng_createFireParticle)
    have i: "\<forall>p \<in> set (ps @ [fst ?c]). P p"
      using Suc.prems assms(3)[of s] by simp
    from Suc.IH[OF v i] True show ?thesis by (simp add: split_beta)
  next
    case False
    with Suc.IH[OF Suc.prems] show ?thesis by simp
  qed
qed

lemma spawnLoop_length:
  "length (fst (spawnLoop n w h ep ps s)) \<le> length ps + n \<and>
   length ps \<le> length (fst (spawnLoop n w h ep ps s)) \<and>
   (int (length ps + n) \<le> particleCountCap ep \<longrightarrow>
      length (fst (spawnLoop n w h ep ps s)) = length ps + n)"
proof (induction n arbitrary: ps s)
  case 0
  then show ?case by simp
next
  case (Suc n)
  show ?case
  proof (cases "int (length ps) < particleCountCap ep")
    case True
    let ?c = "createFireParticle w h ep gaussianRandom s"
    from Suc.IH[of "ps @ [fst ?c]" "snd ?c"] True show ?thesis by (simp add: split_beta)
  next
    case False
    with Suc.IH[of ps s] show ?thesis by simp
  qed
qed

subsection \<open>Ticks\<close>

lemma tick_inv:
  assumes "validRng s" and "0 \<le> ep" and "ep \<le> 100"
    and "\<forall>p \<in> set (liveParticles st). particleInv p"
  shows "validRng (snd (snd (tick w h ep st s))) \<and>
         (\<forall>p \<in> set (liveParticles (fst (tick w h ep st s))).
            particleInv p \<and> 0 < remainingEnergy p \<and> 0 < lifeFraction p \<and> lifeFraction p \<le> 1)"
proof -
  let ?sp = "spawnPhase w h ep (liveParticles st) s"
  have sp: "validRng (snd ?sp) \<and> (\<forall>p \<in> set (fst ?sp). particleInv p)"
    unfolding spawnPhase_def using assms(1,2,4) by (rule spawnLoop_facts)
  obtain kept drawn s2 where f: "filterParticles w ep (frameIndex st) (fst ?sp) (snd ?sp) = (kept, drawn, s2)"
    by (cases "filterParticles w ep (frameIndex st) (fst ?sp) (snd ?sp)") auto
  have t: "tick w h ep st s = (\<lparr>liveParticles = kept, frameIndex = Suc (frameIndex st)\<rparr>, drawn, s2)"
    using f by (simp add: tick_def split_beta)
  have v: "validRng s2"
    using validRng_filterParticles[of "snd ?sp" w ep "frameIndex st" "fst ?sp"] sp f by simp
  have "particleInv q \<and> 0 < remainingEnergy q \<and> 0 < lifeFraction q \<and> lifeFraction q \<le> 1"
    if q: "q \<in> set kept" for q
  proof -
    from filterParticles_kept[OF f] q obtain p s0 where
      on: "onScreen w q" and p: "p \<in> set (fst ?sp)" and e: "q = fst (updateParticle w ep (frameIndex st) p s0)"
      by blast
    have pi: "particleInv p" using sp p by blast
    have r: "0 < remainingEnergy q" using on by (simp add: onScreen_def)
    from updateParticle_inv[OF assms(3) pi, of w "frameIndex st" s0]
         updateParticle_life[OF assms(3) pi, of w "frameIndex st" s0] r e
    show ?thesis by simp
  qed
  then show ?thesis using v t by simp
qed

lemma runTicks_inv:
  assumes "validRng s" and "0 \<le> ep" and "ep \<le> 100"
    and "\<forall>p \<in> set (liveParticles st).
            particleInv p \<and> 0 < remainingEnergy p \<and> 0 < lifeFraction p \<and> lifeFraction p \<le> 1"
  shows "validRng (snd (runTicks t w h ep st s)) \<and>
         (\<forall>p \<in> set (liveParticles (fst (runTicks t w h ep st s))).
            particleInv p \<and> 0 < remainingEnergy p \<and> 0 < lifeFraction p \<and> lifeFraction p \<le> 1)"
  using assms
proof (induction t arbitrary: st s)
  case 0
  then show ?case by simp
next
  case (Suc t)
  have pi: "\<forall>p \<in> set (liveParticles st). particleInv p" using Suc.prems(4) by blast
  note ti = tick_inv[OF Suc.prems(1,2,3) pi, of w h]
  obtain st' drawn s' where t: "tick w h ep st s = (st', drawn, s')"
    by (cases "tick w h ep st s") auto
  from ti t have "validRng s'" and
    "\<forall>p \<in> set (liveParticles st').
        particleInv p \<and> 0 < remainingEnergy p \<and> 0 < lifeFraction p \<and> lifeFraction p \<le> 1"
    by simp_all
  from Suc.IH[OF this(1) Suc.prems(2,3) this(2)] t show ?case by simp
qed

lemma tick_length:
  "length (liveParticles (fst (tick w h ep st s))) \<le> length (liveParticles st) + nat (spawnPerFrame ep)"
proof -
  let ?sp = "spawnPhase w h ep (liveParticles st) s"
  obtain kept drawn s2 where f: "filterParticles w ep (frameIndex st) (fst ?sp) (snd ?sp) = (kept, drawn, s2)"
    by (cases "filterParticles w ep (frameIndex st) (fst ?sp) (snd ?sp)") auto
  have t: "liveParticles (fst (tick w h ep st s)) = kept"
    using f by (simp add: tick_def split_beta)
  have "length kept \<le> length (fst ?sp)" using filterParticles_kept[OF f] by simp
  also have "\<dots> \<le> length (liveParticles st) + nat (spawnPerFrame ep)"
    unfolding spawnPhase_def using spawnLoop_length by blast
  finally show ?thesis unfolding t .
qed

lemma spawn_constants_full_energy: "nat (spawnPerFrame 100) = 15" "particleCountCap 100 = 700"
  by (simp_all add: spawnPerFrame_def particleCountCap_def)

lemma runTicks_population_bound:
  "length (liveParticles (fst (runTicks t w h 100 st s))) \<le> length (liveParticles st) + 15 * t"
proof (induction t arbitrary: st s)
  case 0
  then show ?case by simp
next
  case (Suc t)
  obtain st' drawn s' where t: "tick w h 100 st s = (st', drawn, s')"
    by (cases "tick w h 100 st s") auto
  have "length (liveParticles st') \<le> length (liveParticles st) + 15"
    using tick_length[of w h 100 st s] t by (simp add: spawn_constants_full_energy)
  with Suc.IH[of st' s'] t show ?case by simp
qed

lemma runTicks_accounting:
  "length (liveParticles st) + 15 * t \<le> 700 \<Longrightarrow>
   length (liveParticles (fst (runTicks t w h 100 st s))) + culledTotal t w h 100 st s =
     length (liveParticles st) + 15 * t"
proof (induction t arbitrary: st s)
  case 0
  then show ?case by simp
next
  case (Suc t)
  let ?sp = "spawnPhase w h 100 (liveParticles st) s"
  obtain kept drawn s2 where f: "filterParticles w 100 (frameIndex st) (fst ?sp) (snd ?sp) = (kept, drawn, s2)"
    by (cases "filterParticles w 100 (frameIndex st) (fst ?sp) (snd ?sp)") auto
  let ?st' = "\<lparr>liveParticles = kept, frameIndex = Suc (frameIndex st)\<rparr>"
  have t: "tick w h 100 st s = (?st', drawn, s2)"
    using f by (simp add: tick_def split_beta)
  have "int (length (liveParticles st) + 15) \<le> particleCountCap 100"
    using Suc.prems by (simp add: spawn_constants_full_energy)
  then have sl: "length (fst ?sp) = length (liveParticles st) + 15"
    unfolding spawnPhase_def spawn_constants_full_energy(1) using spawnLoop_length by blast
  have kl: "length kept \<le> length (fst ?sp)" using filterParticles_kept[OF f] by simp
  have "length (liveParticles ?st') + 15 * t \<le> 700" using kl sl Suc.prems by simp
  from Suc.IH[OF this, of s2]
  have ih: "length (liveParticles (fst (runTicks t w h 100 ?st' s2))) + culledTotal t w h 100 ?st' s2 =
              length kept + 15 * t" by simp
  have r: "runTicks (Suc t) w h 100 st s = runTicks t w h 100 ?st' s2" using t by simp
  have c: "culledTotal (Suc t) w h 100 st s = (length (fst ?sp) - length kept) + culledTotal t w h 100 ?st' s2"
    using f by (simp add: split_beta)
  show ?case unfolding r c using ih kl sl by simp
qed

subsection \<open>Runs on constant generators\<close>

lemma spawnLoop_constant:
  assumes "createFireParticle w h ep gaussianRandom s = (p, s)"
    and "int (length ps + n) \<le> particleCountCap ep"
  shows "spawnLoop n w h ep ps s = (ps @ replicate n p, s)"
  using assms(2)
proof (induction n arbitrary: ps)
  case 0
  then show ?case by simp
next
  case (Suc n)
  have lt: "int (length ps) < particleCountCap ep" using Suc.prems by simp
  have "int (length (ps @ [p]) + n) \<le> particleCountCap ep" using Suc.prems by simp
  from Suc.IH[OF this] lt assms(1) show ?case by (simp add: replicate_app_Cons_same)
qed

lemma filterParticles_constant:
  assumes "updateParticle w ep f p s = (p', s)"
  shows "filterParticles w ep f (replicate n p) s =
           (if onScreen w p' then (replicate n p', replicate n (emitParticle ep p'), s) else ([], [], s))"
  using assms by (induction n) simp_all

lemma gaussianRandom_quarterDraws: "gaussianRandom m sd quarterDraws = (m, quarterDraws)"
  by (simp add: gaussianRandom_def mathRandom_def quarterDraws_def Let_def)

lemma createFireParticle_quarterDraws:
  "createFireParticle 800 600 100 gaussianRandom quarterDraws = (centreParticle, quarterDraws)"
  by (simp add: createFireParticle_def gaussianRandom_quarterDraws spawnSpreadPixels_def
      flooredSpread_def centerEnergyBias_def centreParticle_def Let_def)
     (simp add: mathRandom_def quarterDraws_def)

lemma updateParticle_quarterDraws:
  "updateParticle 800 100 f centreParticle quarterDraws = (centreParticleAged, quarterDraws)"
  by (simp add: updateParticle_def actualEnergyLoss_def mathRandom_def quarterDraws_def
      centreParticle_def centreParticleAged_def Let_def)

lemma ln_ten_ge_one: "1 \<le> ln (10::real)"
proof -
  have "exp (1::real) \<le> 3" by (rule exp_le)
  then have "exp (1::real) \<le> 10" by simp
  then show ?thesis by (simp add: ln_ge_iff)
qed

lemma clamped_log_radius: "4 \<le> sqrt (- 2 * ln (1 / 10 ^ 12 :: real))"
proof -
  have "ln (1 / 10 ^ 12 :: real) = - (12 * ln 10)"
    using ln_realpow[of 10 12] by (simp add: ln_div)
  then have "16 \<le> - 2 * ln (1 / 10 ^ 12 :: real)" using ln_ten_ge_one by simp
  then have "sqrt 16 \<le> sqrt (- 2 * ln (1 / 10 ^ 12 :: real))" by (rule real_sqrt_le_mono)
  moreover have "sqrt 16 = (4::real)"
  proof -
    have "sqrt ((4::real)\<^sup>2) = 4" by (simp del: power2_eq_square)
    then show ?thesis by simp
  qed
  ultimately show ?thesis by simp
qed

lemma gaussianRandom_zeroDraws:
  "gaussianRandom m sd zeroDraws = (sqrt (- 2 * ln (1 / 10 ^ 12)) * sd + m, zeroDraws)"
  by (simp add: gaussianRandom_def mathRandom_def zeroDraws_def Let_def max_def)

lemma createFireParticle_initialEnergy:
  "initialEnergy (fst (createFireParticle w h ep g s)) =
     (let x = fst (g (w / 2) (flooredSpread (spawnSpreadPixels ep)) s);
          s1 = snd (g (w / 2) (flooredSpread (spawnSpreadPixels ep)) s)
      in (40 + ep / 100 * 90) *
         centerEnergyBias (\<bar>x - w / 2\<bar> / flooredSpread (spawnSpreadPixels ep))
           (if s1 1 < 0.15 then 0.3 + s1 2 * 0.4 else 0) *
         (0.7 + (if s1 1 < 0.15 then s1 3 else s1 2) * 0.6))"
  by (simp add: createFireParticle_def Let_def split_beta mathRandom_def numeral_2_eq_2 numeral_3_eq_3)

lemma centerEnergyBias_far: "4 \<le> nd \<Longrightarrow> bonus \<le> 0.6 \<Longrightarrow> centerEnergyBias nd bonus = 0"
  by (simp add: centerEnergyBias_def)

lemma createFireParticle_zeroDraws:
  "snd (createFireParticle 800 600 100 gaussianRandom zeroDraws) = zeroDraws \<and>
   initialEnergy (fst (createFireParticle 800 600 100 gaussianRandom zeroDraws)) = 0 \<and>
   remainingEnergy (fst (createFireParticle 800 600 100 gaussianRandom zeroDraws)) = 0 \<and>
   lifeFraction (fst (createFireParticle 800 600 100 gaussianRandom zeroDraws)) = 1"
proof -
  let ?G = "sqrt (- 2 * ln (1 / 10 ^ 12 :: real))"
  have g: "4 \<le> ?G" by (rule clamped_log_radius)
  have fs: "flooredSpread (spawnSpreadPixels 100) = 15"
    by (simp add: flooredSpread_def spawnSpreadPixels_def)
  have "\<bar>(?G * 15 + 800 / 2) - 800 / 2\<bar> / 15 = ?G" using g by simp
  then have nd: "4 \<le> \<bar>(?G * 15 + 800 / 2) - 800 / 2\<bar> / 15" using g by simp
  have b: "centerEnergyBias (\<bar>(?G * 15 + 800 / 2) - 800 / 2\<bar> / 15) (0.3 + 0 * 0.4) = 0"
    using nd by (rule centerEnergyBias_far) simp
  have i: "initialEnergy (fst (createFireParticle 800 600 100 gaussianRandom zeroDraws)) = 0"
    unfolding createFireParticle_initialEnergy gaussianRandom_zeroDraws fs Let_def fst_conv snd_conv
    using b by (simp add: zeroDraws_def)
  have m: "mathRandom zeroDraws = (0, zeroDraws)"
    by (simp add: mathRandom_def zeroDraws_def)
  have r: "snd (createFireParticle 800 600 100 gaussianRandom zeroDraws) = zeroDraws"
    by (simp add: createFireParticle_def gaussianRandom_zeroDraws Let_def m)
  from i r createFireParticle_fresh[of 800 600 100 gaussianRandom zeroDraws] show ?thesis by simp
qed

lemma mathRandom_zeroDraws: "mathRandom zeroDraws = (0, zeroDraws)"
  by (simp add: mathRandom_def zeroDraws_def)

lemma updateParticle_zeroDraws: "snd (updateParticle w ep f p zeroDraws) = zeroDraws"
  by (simp add: updateParticle_def Let_def mathRandom_zeroDraws)

lemma spawnPhase_zeroDraws:
  "spawnPhase 800 600 100 [] zeroDraws =
     (replicate 15 (fst (createFireParticle 800 600 100 gaussianRandom zeroDraws)), zeroDraws)"
proof -
  have c: "createFireParticle 800 600 100 gaussianRandom zeroDraws =
             (fst (createFireParticle 800 600 100 gaussianRandom zeroDraws), zeroDraws)"
    using createFireParticle_zeroDraws by (simp add: prod_eq_iff)
  have "spawnLoop 15 800 600 100 [] zeroDraws =
          ([] @ replicate 15 (fst (createFireParticle 800 600 100 gaussianRandom zeroDraws)), zeroDraws)"
    using c by (rule spawnLoop_constant) (simp add: spawn_constants_full_energy)
  then show ?thesis by (simp add: spawnPhase_def spawn_constants_full_energy)
qed

lemma spawnPhase_quarterDraws:
  "spawnPhase 800 600 100 [] quarterDraws = (replicate 15 centreParticle, quarterDraws)"
proof -
  have "spawnLoop 15 800 600 100 [] quarterDraws = ([] @ replicate 15 centreParticle, quarterDraws)"
    using createFireParticle_quarterDraws by (rule spawnLoop_constant) (simp add: spawn_constants_full_energy)
  then show ?thesis by (simp add: spawnPhase_def spawn_constants_full_energy)
qed

lemma zero_energy_particle_culled:
  "\<not> onScreen 800 (fst (updateParticle 800 100 f (fst (createFireParticle 800 600 100 gaussianRandom zeroDraws)) zeroDraws)) \<and>
   lifeFraction (fst (updateParticle 800 100 f (fst (createFireParticle 800 600 100 gaussianRandom zeroDraws)) zeroDraws)) = 0"
proof -
  let ?z = "fst (createFireParticle 800 600 100 gaussianRandom zeroDraws)"
  have v: "validRng zeroDraws" by (simp add: validRng_def zeroDraws_def)
  have pi: "particleInv ?z" using v by (rule createFireParticle_inv) simp
  have "initialEnergy ?z = 0" using createFireParticle_zeroDraws by simp
  from updateParticle_zero_initial[OF _ pi this, of 100 800 f zeroDraws]
  show ?thesis by (simp add: onScreen_def)
qed

lemma tick_zeroDraws:
  "liveParticles (fst (tick 800 600 100 initialState zeroDraws)) = [] \<and>
   snd (snd (tick 800 600 100 initialState zeroDraws)) = zeroDraws"
proof -
  let ?z = "fst (createFireParticle 800 600 100 gaussianRandom zeroDraws)"
  have u: "updateParticle 800 100 0 ?z zeroDraws = (fst (updateParticle 800 100 0 ?z zeroDraws), zeroDraws)"
    using updateParticle_zeroDraws[of 800 100 0 ?z] by (simp add: prod_eq_iff)
  have "filterParticles 800 100 0 (replicate 15 ?z) zeroDraws = ([], [], zeroDraws)"
    using filterParticles_constant[OF u, of 15] zero_energy_particle_culled[of 0] by simp
  then show ?thesis
    by (simp add: tick_def initialState_def spawnPhase_zeroDraws)
qed

lemma tick_quarterDraws:
  "tick 800 600 100 \<lparr>liveParticles = [], frameIndex = f\<rparr> quarterDraws =
     (\<lparr>liveParticles = replicate 15 centreParticleAged, frameIndex = Suc f\<rparr>,
      replicate 15 (emitParticle 100 centreParticleAged), quarterDraws)"
proof -
  have on: "onScreen 800 centreParticleAged"
    by (simp add: onScreen_def centreParticleAged_def)
  have "filterParticles 800 100 f (replicate 15 centreParticle) quarterDraws =
          (replicate 15 centreParticleAged, replicate 15 (emitParticle 100 centreParticleAged), quarterDraws)"
    using filterParticles_constant[OF updateParticle_quarterDraws, of f 15] on by simp
  then show ?thesis by (simp add: tick_def spawnPhase_quarterDraws)
qed

lemma updateN_remaining:
  "remainingEnergy (fst (updateN n w ep f p s)) = remainingEnergy p - real n * actualEnergyLoss ep p"
proof (induction n arbitrary: f p s)
  case 0
  then show ?case by simp
next
  case (Suc n)
  obtain p' s' where u: "updateParticle w ep f p s = (p', s')" by (cases "updateParticle w ep f p s")
  then have p': "p' = fst (updateParticle w ep f p s)" by simp
  have "remainingEnergy (fst (updateN (Suc n) w ep f p s)) = remainingEnergy p' - real n * actualEnergyLoss ep p'"
    using u Suc.IH[of "Suc f" p' s'] by simp
  also have "\<dots> = remainingEnergy p - real (Suc n) * actualEnergyLoss ep p"
    unfolding p' by (simp add: updateParticle_fields actualEnergyLoss_updateParticle algebra_simps)
  finally show ?case .
qed

lemma filterParticles_append:
  "filterParticles w ep f (xs @ ys) s =
     (let (k1, d1, s1) = filterParticles w ep f xs s;
          (k2, d2, s2) = filterParticles w ep f ys s1
      in (k1 @ k2, d1 @ d2, s2))"
  by (induction xs arbitrary: s) (simp_all add: split_beta Let_def)

lemma updateParticle_offscreen_sample:
  "updateParticle 800 100 0 ((particleAt 1)\<lparr>positionX := - 100\<rparr>) quarterDraws =
     ((particleAt 1)\<lparr>positionX := - 99.5, positionY := 296.91, velocityX := 0.49,
         velocityY := - 3.0282, remainingEnergy := 99.2, lifeFraction := 0.992\<rparr>, quarterDraws)"
  by (simp add: updateParticle_def actualEnergyLoss_def mathRandom_def quarterDraws_def
      particleAt_def Let_def)

section \<open>Liveness of the particles in the collection\<close>

text \<open>
  Claim C1, as stated, fails between the spawn phase and the filter of a tick: on an
  800 x 600 canvas at 100 percent energy, when the generator returns 0 at every call,
  the sample is clamped to the far tail of the Gaussian, \<open>centerEnergyBias\<close> is 0, and
  the collection after the spawn phase of the first tick holds 15 particles whose
  first has \<open>initialEnergy = remainingEnergy = 0\<close>.
\<close>

theorem fresh_particle_without_energy:
  "length (fst (spawnPhase 800 600 100 (liveParticles initialState) zeroDraws)) = 15 \<and>
   remainingEnergy (hd (fst (spawnPhase 800 600 100 (liveParticles initialState) zeroDraws))) = 0 \<and>
   initialEnergy (hd (fst (spawnPhase 800 600 100 (liveParticles initialState) zeroDraws))) = 0 \<and>
   \<not> 0 < remainingEnergy (hd (fst (spawnPhase 800 600 100 (liveParticles initialState) zeroDraws)))"
proof -
  have "hd (replicate 15 (fst (createFireParticle 800 600 100 gaussianRandom zeroDraws))) =
          fst (createFireParticle 800 600 100 gaussianRandom zeroDraws)"
    by (simp add: hd_replicate)
  then show ?thesis
    using createFireParticle_zeroDraws by (simp add: initialState_def spawnPhase_zeroDraws)
qed

text \<open>
  Claim C1, amended. For an energy in [10,100] percent and a valid generator (which
  every tick leaves valid): after every tick (that is, after the filter) every
  particle of the collection has \<open>0 < remainingEnergy \<le> initialEnergy\<close> and a
  life fraction in (0,1]. After the spawn
  phase of the next tick every particle has \<open>0 \<le> remainingEnergy \<le> initialEnergy\<close>
  and a life fraction in (0,1]; once updated, its life fraction is in [0,1], and when
  that life fraction is 0 the particle fails \<open>onScreen\<close>: the filter of that same
  tick removes it.
\<close>

theorem live_particles_invariant:
  assumes "10 \<le> ep" and "ep \<le> 100" and "validRng s" and "validRng s1"
  shows "validRng (snd (runTicks t w h ep initialState s)) \<and>
         (\<forall>p \<in> set (liveParticles (fst (runTicks t w h ep initialState s))).
            0 < remainingEnergy p \<and> remainingEnergy p \<le> initialEnergy p \<and>
            0 < lifeFraction p \<and> lifeFraction p \<le> 1) \<and>
         (\<forall>p \<in> set (fst (spawnPhase w h ep (liveParticles (fst (runTicks t w h ep initialState s))) s1)).
            0 \<le> remainingEnergy p \<and> remainingEnergy p \<le> initialEnergy p \<and>
            0 < lifeFraction p \<and> lifeFraction p \<le> 1 \<and>
            0 \<le> lifeFraction (fst (updateParticle w ep f p s2)) \<and>
            lifeFraction (fst (updateParticle w ep f p s2)) \<le> 1 \<and>
            (lifeFraction (fst (updateParticle w ep f p s2)) = 0 \<longrightarrow>
               \<not> onScreen w (fst (updateParticle w ep f p s2))))"
proof -
  define P where "P = (\<lambda>p. particleInv p \<and> 0 \<le> remainingEnergy p \<and> 0 < lifeFraction p \<and> lifeFraction p \<le> 1)"
  have ep0: "0 \<le> ep" using assms(1) by simp
  have init: "\<forall>p \<in> set (liveParticles initialState).
            particleInv p \<and> 0 < remainingEnergy p \<and> 0 < lifeFraction p \<and> lifeFraction p \<le> 1"
    by (simp add: initialState_def)
  note r = runTicks_inv[OF assms(3) ep0 assms(2) init, of t w h]
  have a: "\<forall>p \<in> set (liveParticles (fst (runTicks t w h ep initialState s))).
            0 < remainingEnergy p \<and> remainingEnergy p \<le> initialEnergy p \<and>
            0 < lifeFraction p \<and> lifeFraction p \<le> 1"
    using r by (simp add: particleInv_def)
  have old: "\<forall>p \<in> set (liveParticles (fst (runTicks t w h ep initialState s))). P p"
    using r by (auto simp: P_def)
  have fresh: "P (fst (createFireParticle w h ep gaussianRandom s'))" if "validRng s'" for s'
    using createFireParticle_inv[OF that ep0, of w h]
      createFireParticle_fresh[of w h ep gaussianRandom s']
    by (simp add: P_def particleInv_def)
  have sp: "\<forall>p \<in> set (fst (spawnPhase w h ep (liveParticles (fst (runTicks t w h ep initialState s))) s1)). P p"
    unfolding spawnPhase_def using assms(4) old fresh by (rule spawnLoop_pred)
  have b: "0 \<le> remainingEnergy p \<and> remainingEnergy p \<le> initialEnergy p \<and>
            0 < lifeFraction p \<and> lifeFraction p \<le> 1 \<and>
            0 \<le> lifeFraction (fst (updateParticle w ep f p s2)) \<and>
            lifeFraction (fst (updateParticle w ep f p s2)) \<le> 1 \<and>
            (lifeFraction (fst (updateParticle w ep f p s2)) = 0 \<longrightarrow>
               \<not> onScreen w (fst (updateParticle w ep f p s2)))"
    if "P p" for p
  proof -
    have pi: "particleInv p" using that by (simp add: P_def)
    from updateParticle_life[OF assms(2) pi, of w f s2] that
    show ?thesis by (auto simp: onScreen_def P_def particleInv_def)
  qed
  have v: "validRng (snd (runTicks t w h ep initialState s))" using r by blast
  from v a sp b show ?thesis by blast
qed

text \<open>
  One tick with every draw 1/4 leaves 15 particles at 109.7 of 110.5 energy units; the
  zero-energy particle of the generator of zeros has life fraction 0 after its update
  and fails \<open>onScreen\<close>.
\<close>

theorem live_particles_invariant_witness:
  "(10::real) \<le> 100 \<and> (100::real) \<le> 100 \<and> validRng quarterDraws \<and> validRng zeroDraws \<and>
   liveParticles (fst (runTicks 1 800 600 100 initialState quarterDraws)) = replicate 15 centreParticleAged \<and>
   0 < remainingEnergy centreParticleAged \<and>
   remainingEnergy centreParticleAged \<le> initialEnergy centreParticleAged \<and>
   0 < lifeFraction centreParticleAged \<and> lifeFraction centreParticleAged \<le> 1 \<and>
   lifeFraction (fst (updateParticle 800 100 0 (hd (fst (spawnPhase 800 600 100 [] zeroDraws))) zeroDraws)) = 0 \<and>
   \<not> onScreen 800 (fst (updateParticle 800 100 0 (hd (fst (spawnPhase 800 600 100 [] zeroDraws))) zeroDraws))"
proof -
  have v: "validRng quarterDraws" "validRng zeroDraws"
    by (simp_all add: validRng_def quarterDraws_def zeroDraws_def)
  have run: "liveParticles (fst (runTicks 1 800 600 100 initialState quarterDraws)) = replicate 15 centreParticleAged"
    by (simp add: initialState_def tick_quarterDraws)
  have z: "hd (fst (spawnPhase 800 600 100 [] zeroDraws)) = fst (createFireParticle 800 600 100 gaussianRandom zeroDraws)"
    by (simp add: spawnPhase_zeroDraws hd_replicate)
  from live_particles_invariant[of 100 quarterDraws zeroDraws 1 800 600 0 zeroDraws]
  have "\<forall>p \<in> set (replicate 15 centreParticleAged).
            0 < remainingEnergy p \<and> remainingEnergy p \<le> initialEnergy p \<and>
            0 < lifeFraction p \<and> lifeFraction p \<le> 1"
    using v run by simp
  then have c: "0 < remainingEnergy centreParticleAged \<and>
   remainingEnergy centreParticleAged \<le> initialEnergy centreParticleAged \<and>
   0 < lifeFraction centreParticleAged \<and> lifeFraction centreParticleAged \<le> 1" by simp
  show ?thesis using v run c z zero_energy_particle_culled[of 0] by simp
qed

section \<open>Decay of burst and plain particles\<close>

text \<open>
  Claim C4, as stated, fails for particles spawned on the axis: with
  \<open>normalizedDistanceFromCenter = 0\<close> the edge penalty of the plain particle is 0 as
  well, and after 10 frames at 50 percent energy both particles have 86 of their 100
  energy units.
\<close>

theorem burst_and_plain_decay_alike_on_axis:
  "remainingEnergy (fst (updateN 10 800 50 0 ((particleAt 1)\<lparr>receivedBurstEnergy := True\<rparr>) zeroDraws)) = 86 \<and>
   remainingEnergy (fst (updateN 10 800 50 0 (particleAt 1) zeroDraws)) = 86 \<and>
   \<not> remainingEnergy (fst (updateN 10 800 50 0 (particleAt 1) zeroDraws)) <
       remainingEnergy (fst (updateN 10 800 50 0 ((particleAt 1)\<lparr>receivedBurstEnergy := True\<rparr>) zeroDraws))"
  by (simp add: updateN_remaining actualEnergyLoss_def particleAt_def Let_def)

text \<open>
  Claim C4, amended. For an energy of at most 100 percent, take a burst particle and a
  plain one, fresh from the factory (\<open>remainingEnergy = initialEnergy\<close>), with the same
  initial energy and the same normalized distance \<open>d\<close>. After \<open>n\<close> frames the burst
  particle has \<open>n * (0.8 + (1 - e) * 1.2) * 0.3 * d\<close> more energy left than the plain
  one: strictly more when \<open>n > 0\<close> and \<open>d > 0\<close>, and exactly as much when \<open>d = 0\<close>.
\<close>

theorem burst_decay_difference:
  assumes "ep \<le> 100"
    and "receivedBurstEnergy pb" and "\<not> receivedBurstEnergy pn"
    and "normalizedDistanceFromCenter pb = normalizedDistanceFromCenter pn"
    and "initialEnergy pb = initialEnergy pn"
    and "remainingEnergy pb = initialEnergy pb" and "remainingEnergy pn = initialEnergy pn"
  shows "remainingEnergy (fst (updateN n w ep fb pb sb)) - remainingEnergy (fst (updateN n w ep fn pn sn)) =
           real n * (0.8 + (1 - ep / 100) * 1.2) * (normalizedDistanceFromCenter pn * 0.3) \<and>
         (0 < n \<and> 0 < normalizedDistanceFromCenter pn \<longrightarrow>
            remainingEnergy (fst (updateN n w ep fn pn sn)) < remainingEnergy (fst (updateN n w ep fb pb sb))) \<and>
         (normalizedDistanceFromCenter pn = 0 \<longrightarrow>
            remainingEnergy (fst (updateN n w ep fn pn sn)) = remainingEnergy (fst (updateN n w ep fb pb sb)))"
proof -
  define B where "B = 0.8 + (1 - ep / 100) * 1.2"
  define d where "d = normalizedDistanceFromCenter pn"
  have "0 \<le> (1 - ep / 100) * 1.2" using assms(1) by simp
  then have B: "0 < B" unfolding B_def by linarith
  have lb: "actualEnergyLoss ep pb = B" using assms(2) by (simp add: actualEnergyLoss_def Let_def B_def)
  have ln: "actualEnergyLoss ep pn = B * (1 + d * 0.3)"
    using assms(3) by (simp add: actualEnergyLoss_def Let_def B_def d_def)
  have diff: "remainingEnergy (fst (updateN n w ep fb pb sb)) - remainingEnergy (fst (updateN n w ep fn pn sn)) =
           real n * B * (d * 0.3)"
    unfolding updateN_remaining lb ln using assms(5,6,7) by (simp add: algebra_simps)
  have pos: "0 < real n * B * (d * 0.3)" if "0 < n" "0 < d"
    using that B by simp
  have up: "0 < n \<and> 0 < d \<longrightarrow>
      remainingEnergy (fst (updateN n w ep fn pn sn)) < remainingEnergy (fst (updateN n w ep fb pb sb))"
  proof
    assume "0 < n \<and> 0 < d"
    then have "0 < real n * B * (d * 0.3)" using pos by blast
    with diff show "remainingEnergy (fst (updateN n w ep fn pn sn)) < remainingEnergy (fst (updateN n w ep fb pb sb))"
      by linarith
  qed
  have same: "d = 0 \<longrightarrow>
      remainingEnergy (fst (updateN n w ep fn pn sn)) = remainingEnergy (fst (updateN n w ep fb pb sb))"
  proof
    assume "d = 0"
    then have "real n * B * (d * 0.3) = 0" by simp
    with diff show "remainingEnergy (fst (updateN n w ep fn pn sn)) = remainingEnergy (fst (updateN n w ep fb pb sb))"
      by linarith
  qed
  from diff up same show ?thesis unfolding B_def d_def by blast
qed

text \<open>
  At a normalized distance of 1 and 50 percent energy, after 10 frames: 86 units for
  the burst particle, 81.8 for the plain one.
\<close>

theorem burst_decay_difference_witness:
  "(50::real) \<le> 100 \<and> (0::nat) < 10 \<and>
   remainingEnergy (fst (updateN 10 800 50 0
       ((particleAt 1)\<lparr>normalizedDistanceFromCenter := 1, receivedBurstEnergy := True\<rparr>) zeroDraws)) = 86 \<and>
   remainingEnergy (fst (updateN 10 800 50 0
       ((particleAt 1)\<lparr>normalizedDistanceFromCenter := 1\<rparr>) quarterDraws)) = 81.8 \<and>
   remainingEnergy (fst (updateN 10 800 50 0
       ((particleAt 1)\<lparr>normalizedDistanceFromCenter := 1\<rparr>) quarterDraws)) <
   remainingEnergy (fst (updateN 10 800 50 0
       ((particleAt 1)\<lparr>normalizedDistanceFromCenter := 1, receivedBurstEnergy := True\<rparr>) zeroDraws))"
  using burst_decay_difference[of 50
      "(particleAt 1)\<lparr>normalizedDistanceFromCenter := 1, receivedBurstEnergy := True\<rparr>"
      "(particleAt 1)\<lparr>normalizedDistanceFromCenter := 1\<rparr>" 10 800 0 zeroDraws 0 quarterDraws]
  by (simp add: updateN_remaining actualEnergyLoss_def particleAt_def Let_def)

section \<open>Population in the first ticks\<close>

text \<open>
  Claim C5, as stated, fails at the first tick: a particle spawned in a tick can be
  culled in that same tick. With the generator of zeros all 15 particles of the first
  tick are spawned without energy and removed by the filter, so the population after
  tick 1 is 0, not 15.
\<close>

theorem population_after_first_tick_zero:
  "spawnPerFrame 100 = 15 \<and>
   length (liveParticles (fst (runTicks 1 800 600 100 initialState zeroDraws))) = 0 \<and>
   length (liveParticles (fst (runTicks 1 800 600 100 initialState zeroDraws))) \<noteq> 1 * 15"
proof -
  obtain st' drawn s' where t: "tick 800 600 100 initialState zeroDraws = (st', drawn, s')"
    by (cases "tick 800 600 100 initialState zeroDraws") auto
  then have "liveParticles st' = []" using tick_zeroDraws by simp
  then show ?thesis using t by (simp add: spawnPerFrame_def)
qed

text \<open>
  Claim C5, amended. From an empty collection at 100 percent energy, the population
  after tick \<open>t\<close> is at most \<open>15 * t\<close>; for the first 46 ticks (while \<open>15 * t\<close> is
  below the capacity of 700) the population plus the number of particles the filter
  has removed so far is exactly \<open>15 * t\<close>, so the population is \<open>15 * t\<close> exactly
  when nothing was culled. The spawn phase adds exactly 15 particles to a collection
  of at most 685.
\<close>

theorem population_accounting:
  "length (liveParticles (fst (runTicks t w h 100 initialState s))) \<le> 15 * t \<and>
   (t \<le> 46 \<longrightarrow>
      length (liveParticles (fst (runTicks t w h 100 initialState s))) +
        culledTotal t w h 100 initialState s = 15 * t) \<and>
   (length ps + 15 \<le> 700 \<longrightarrow> length (fst (spawnPhase w h 100 ps s1)) = length ps + 15)"
proof -
  have b: "length (liveParticles (fst (runTicks t w h 100 initialState s))) \<le> 15 * t"
    using runTicks_population_bound[of t w h initialState s] by (simp add: initialState_def)
  have a: "length (liveParticles (fst (runTicks t w h 100 initialState s))) +
           culledTotal t w h 100 initialState s = 15 * t" if "t \<le> 46"
  proof -
    have "length (liveParticles initialState) + 15 * t \<le> 700"
      using that by (simp add: initialState_def)
    from runTicks_accounting[OF this, of w h s] show ?thesis by (simp add: initialState_def)
  qed
  have c: "length (fst (spawnPhase w h 100 ps s1)) = length ps + 15" if "length ps + 15 \<le> 700"
  proof -
    have "int (length ps + 15) \<le> particleCountCap 100"
      using that by (simp add: spawn_constants_full_energy)
    then show ?thesis
      unfolding spawnPhase_def spawn_constants_full_energy(1) using spawnLoop_length by blast
  qed
  from a b c show ?thesis by blast
qed

text \<open>
  After one tick: 15 particles and nothing culled when every draw is 1/4; no particle
  and 15 culled when every draw is 0.
\<close>

theorem population_accounting_witness:
  "(1::nat) \<le> 46 \<and>
   length (liveParticles (fst (runTicks 1 800 600 100 initialState quarterDraws))) = 15 \<and>
   culledTotal 1 800 600 100 initialState quarterDraws = 0 \<and>
   length (liveParticles (fst (runTicks 1 800 600 100 initialState zeroDraws))) = 0 \<and>
   culledTotal 1 800 600 100 initialState zeroDraws = 15 \<and>
   length ([] :: particle list) + 15 \<le> 700 \<and>
   length (fst (spawnPhase 800 600 100 [] quarterDraws)) = length ([] :: particle list) + 15"
proof -
  have q: "length (liveParticles (fst (runTicks 1 800 600 100 initialState quarterDraws))) = 15"
    by (simp add: initialState_def tick_quarterDraws)
  obtain st' drawn s' where t: "tick 800 600 100 initialState zeroDraws = (st', drawn, s')"
    by (cases "tick 800 600 100 initialState zeroDraws") auto
  then have "liveParticles st' = []" using tick_zeroDraws by simp
  then have z: "length (liveParticles (fst (runTicks 1 800 600 100 initialState zeroDraws))) = 0"
    using t by simp
  from population_accounting[of 1 800 600 quarterDraws "[]" quarterDraws] q
  have cq: "culledTotal 1 800 600 100 initialState quarterDraws = 0 \<and>
            length (fst (spawnPhase 800 600 100 [] quarterDraws)) = 15" by simp
  from population_accounting[of 1 800 600 zeroDraws "[]" zeroDraws] z
  have cz: "culledTotal 1 800 600 100 initialState zeroDraws = 15" by simp
  from q z cq cz show ?thesis by simp
qed

section \<open>Particles that leave the margin\<close>

text \<open>
  Claim C8. In the 2D variant, a particle whose updated position fails one of
  \<open>positionY > -30\<close>, \<open>positionX > -30\<close>, \<open>positionX < canvasWidth + 30\<close> is dropped by
  the filter wherever it stands in the collection, whatever its life fraction: the
  kept particles and the drawn tuples are those of the particles before it followed
  by those of the particles after it. After a tick every particle of the collection
  and every drawn tuple is inside the margin, and the drawn tuples are exactly those
  of the kept particles.
\<close>

theorem offscreen_particle_never_emitted:
  assumes "filterParticles w ep f qs s = (k1, d1, sa)"
    and "updateParticle w ep f p sa = (p', sb)"
    and "\<not> (positionY p' > - 30 \<and> positionX p' > - 30 \<and> positionX p' < w + 30)"
    and "filterParticles w ep f ps sb = (k2, d2, sc)"
    and "tick w h ep st s0 = (st', drawn, s')"
  shows "filterParticles w ep f (qs @ p # ps) s = (k1 @ k2, d1 @ d2, sc) \<and>
         (\<forall>q \<in> set (liveParticles st').
            positionY q > - 30 \<and> positionX q > - 30 \<and> positionX q < w + 30) \<and>
         drawn = map (emitParticle ep) (liveParticles st') \<and>
         (\<forall>d \<in> set drawn. drawY d > - 30 \<and> drawX d > - 30 \<and> drawX d < w + 30)"
proof -
  let ?sp = "spawnPhase w h ep (liveParticles st) s0"
  obtain kept dr s2' where fl: "filterParticles w ep (frameIndex st) (fst ?sp) (snd ?sp) = (kept, dr, s2')"
    by (cases "filterParticles w ep (frameIndex st) (fst ?sp) (snd ?sp)") auto
  have t: "liveParticles st' = kept" "drawn = dr"
    using fl assms(5) by (auto simp add: tick_def split_beta)
  note k = filterParticles_kept[OF fl]
  have a: "\<forall>q \<in> set (liveParticles st').
            positionY q > - 30 \<and> positionX q > - 30 \<and> positionX q < w + 30"
    using k t by (auto simp: onScreen_def)
  have b: "drawn = map (emitParticle ep) (liveParticles st')" using k t by simp
  have c: "\<forall>d \<in> set drawn. drawY d > - 30 \<and> drawX d > - 30 \<and> drawX d < w + 30"
    unfolding b using a by (auto simp: emitParticle_def)
  have off: "\<not> onScreen w p'" using assms(3) by (auto simp: onScreen_def)
  have "filterParticles w ep f (p # ps) sa = (k2, d2, sc)"
    using assms(2,4) off by simp
  then have d: "filterParticles w ep f (qs @ p # ps) s = (k1 @ k2, d1 @ d2, sc)"
    using assms(1) by (simp add: filterParticles_append)
  from a b c d show ?thesis by blast
qed

text \<open>
  A particle at \<open>x = -100\<close> with all its energy, between two particles on the axis:
  after the update it is at \<open>x = -99.5\<close> with a life fraction of 0.992, and only its
  two neighbours are kept and drawn.
\<close>

theorem offscreen_particle_never_emitted_witness:
  "lifeFraction (fst (updateParticle 800 100 0 ((particleAt 1)\<lparr>positionX := - 100\<rparr>) quarterDraws)) = 0.992 \<and>
   remainingEnergy (fst (updateParticle 800 100 0 ((particleAt 1)\<lparr>positionX := - 100\<rparr>) quarterDraws)) = 99.2 \<and>
   positionX (fst (updateParticle 800 100 0 ((particleAt 1)\<lparr>positionX := - 100\<rparr>) quarterDraws)) = - 99.5 \<and>
   \<not> (- 99.5 > (- 30 :: real)) \<and>
   filterParticles 800 100 0
       ([centreParticle] @ (particleAt 1)\<lparr>positionX := - 100\<rparr> # [centreParticle]) quarterDraws =
     ([centreParticleAged] @ [centreParticleAged],
      [emitParticle 100 centreParticleAged] @ [emitParticle 100 centreParticleAged], quarterDraws) \<and>
   liveParticles (fst (tick 800 600 100 initialState quarterDraws)) = replicate 15 centreParticleAged \<and>
   fst (snd (tick 800 600 100 initialState quarterDraws)) =
     map (emitParticle 100) (replicate 15 centreParticleAged)"
proof -
  have one: "filterParticles 800 100 0 [centreParticle] quarterDraws =
               ([centreParticleAged], [emitParticle 100 centreParticleAged], quarterDraws)"
    using filterParticles_constant[OF updateParticle_quarterDraws, of 0 1]
    by (simp add: onScreen_def centreParticleAged_def)
  have t: "tick 800 600 100 initialState quarterDraws =
     (\<lparr>liveParticles = replicate 15 centreParticleAged, frameIndex = Suc 0\<rparr>,
      replicate 15 (emitParticle 100 centreParticleAged), quarterDraws)"
    unfolding initialState_def by (rule tick_quarterDraws)
  have off: "\<not> (positionY ((particleAt 1)\<lparr>positionX := - 99.5, positionY := 296.91, velocityX := 0.49,
         velocityY := - 3.0282, remainingEnergy := 99.2, lifeFraction := 0.992\<rparr>) > - 30 \<and>
         positionX ((particleAt 1)\<lparr>positionX := - 99.5, positionY := 296.91, velocityX := 0.49,
         velocityY := - 3.0282, remainingEnergy := 99.2, lifeFraction := 0.992\<rparr>) > - 30 \<and>
         positionX ((particleAt 1)\<lparr>positionX := - 99.5, positionY := 296.91, velocityX := 0.49,
         velocityY := - 3.0282, remainingEnergy := 99.2, lifeFraction := 0.992\<rparr>) < 800 + 30)"
    by simp
  from offscreen_particle_never_emitted[OF one updateParticle_offscreen_sample off one t]
  show ?thesis by (simp add: updateParticle_offscreen_sample t)
qed

text \<open>
  The filter of the 3D variant has no margin test: it keeps every particle whose life
  has not run out, wherever it is.
\<close>

lemma filterFrame_ignores_position:
  "0 < life p - dl \<Longrightarrow>
   fst (filterFrame e el dl [p] i pos col) = [advanceParticle e el dl (p\<lparr>life := life p - dl\<rparr>)]"
  by (simp add: Let_def)

section \<open>The buffers of the 3D variant\<close>

subsection \<open>The spawn loop\<close>

lemma spawnLoop3_length:
  "length ps \<le> length (fst (spawnLoop3 n e ps s)) \<and>
   (length ps \<le> MAX_PARTICLES \<longrightarrow> length (fst (spawnLoop3 n e ps s)) \<le> MAX_PARTICLES) \<and>
   (MAX_PARTICLES \<le> length ps \<longrightarrow> fst (spawnLoop3 n e ps s) = ps)"
proof (induction n arbitrary: ps s)
  case 0
  then show ?case by simp
next
  case (Suc n)
  show ?case
  proof (cases "int (length ps) < particleCap e \<and> length ps < MAX_PARTICLES")
    case True
    from Suc.IH[of "ps @ [fst (spawnParticle e s)]" "snd (spawnParticle e s)"] True
    show ?thesis by (simp add: split_beta)
  next
    case False
    with Suc.IH[of ps s] show ?thesis by auto
  qed
qed

subsection \<open>Writes to the buffers\<close>

lemma writeTriple_length: "length (writeTriple buf i a b c) = length buf"
  by (simp add: writeTriple_def)

lemma writeTriple_below: "k < i * 3 \<Longrightarrow> writeTriple buf i a b c ! k = buf ! k"
  by (simp add: writeTriple_def)

lemma writeTriple_at:
  "i * 3 + 2 < length buf \<Longrightarrow>
   writeTriple buf i a b c ! (i * 3) = a \<and>
   writeTriple buf i a b c ! (i * 3 + 1) = b \<and>
   writeTriple buf i a b c ! (i * 3 + 2) = c"
  by (simp add: writeTriple_def)

lemma filterFrame_count:
  "filterFrame e el dl ps i pos col = (kept, n, pos', col') \<Longrightarrow>
     n = i + length kept \<and> length kept \<le> length ps \<and>
     length pos' = length pos \<and> length col' = length col \<and>
     (\<forall>k < i * 3. pos' ! k = pos ! k \<and> col' ! k = col ! k)"
proof (induction ps arbitrary: i pos col kept n pos' col')
  case Nil
  then show ?case by simp
next
  case (Cons p ps)
  show ?case
  proof (cases "life p - dl \<le> 0")
    case True
    with Cons.prems have "filterFrame e el dl ps i pos col = (kept, n, pos', col')" by simp
    from Cons.IH[OF this] show ?thesis by auto
  next
    case False
    define p2 where "p2 = advanceParticle e el dl (p\<lparr>life := life p - dl\<rparr>)"
    define pos1 where "pos1 = writeTriple pos i (vecX (position p2)) (vecY (position p2)) (vecZ (position p2))"
    define col1 where "col1 = writeTriple col i (colorR (color p2)) (colorG (color p2)) (colorB (color p2))"
    obtain k2 n2 posr colr where r: "filterFrame e el dl ps (i + 1) pos1 col1 = (k2, n2, posr, colr)"
      by (cases "filterFrame e el dl ps (i + 1) pos1 col1") auto
    from Cons.prems False r have eq: "kept = p2 # k2" "n = n2" "pos' = posr" "col' = colr"
      by (simp_all add: Let_def p2_def pos1_def col1_def)
    note ih = Cons.IH[OF r]
    have below: "pos' ! k = pos ! k \<and> col' ! k = col ! k" if "k < i * 3" for k
    proof -
      have "k < (i + 1) * 3" using that by simp
      then have "posr ! k = pos1 ! k \<and> colr ! k = col1 ! k" using ih by blast
      then show ?thesis using that eq by (simp add: pos1_def col1_def writeTriple_below)
    qed
    show ?thesis using ih eq below by (simp add: pos1_def col1_def writeTriple_length)
  qed
qed

lemma filterFrame_contents:
  "filterFrame e el dl ps i pos col = (kept, n, pos', col') \<Longrightarrow>
   n * 3 \<le> length pos \<Longrightarrow> n * 3 \<le> length col \<Longrightarrow>
     (\<forall>j < length kept.
        pos' ! ((i + j) * 3) = vecX (position (kept ! j)) \<and>
        pos' ! ((i + j) * 3 + 1) = vecY (position (kept ! j)) \<and>
        pos' ! ((i + j) * 3 + 2) = vecZ (position (kept ! j)) \<and>
        col' ! ((i + j) * 3) = colorR (color (kept ! j)) \<and>
        col' ! ((i + j) * 3 + 1) = colorG (color (kept ! j)) \<and>
        col' ! ((i + j) * 3 + 2) = colorB (color (kept ! j)))"
proof (induction ps arbitrary: i pos col kept n pos' col')
  case Nil
  then show ?case by simp
next
  case (Cons p ps)
  show ?case
  proof (cases "life p - dl \<le> 0")
    case True
    with Cons.prems have "filterFrame e el dl ps i pos col = (kept, n, pos', col')" by simp
    from Cons.IH[OF this Cons.prems(2,3)] show ?thesis .
  next
    case False
    define p2 where "p2 = advanceParticle e el dl (p\<lparr>life := life p - dl\<rparr>)"
    define pos1 where "pos1 = writeTriple pos i (vecX (position p2)) (vecY (position p2)) (vecZ (position p2))"
    define col1 where "col1 = writeTriple col i (colorR (color p2)) (colorG (color p2)) (colorB (color p2))"
    obtain k2 n2 posr colr where r: "filterFrame e el dl ps (i + 1) pos1 col1 = (k2, n2, posr, colr)"
      by (cases "filterFrame e el dl ps (i + 1) pos1 col1") auto
    from Cons.prems(1) False r have eq: "kept = p2 # k2" "n = n2" "pos' = posr" "col' = colr"
      by (simp_all add: Let_def p2_def pos1_def col1_def)
    note cnt = filterFrame_count[OF r]
    have n: "n = i + 1 + length k2" using cnt eq by simp
    have len: "length pos1 = length pos" "length col1 = length col"
      by (simp_all add: pos1_def col1_def writeTriple_length)
    have ih: "\<forall>j < length k2.
        posr ! ((i + 1 + j) * 3) = vecX (position (k2 ! j)) \<and>
        posr ! ((i + 1 + j) * 3 + 1) = vecY (position (k2 ! j)) \<and>
        posr ! ((i + 1 + j) * 3 + 2) = vecZ (position (k2 ! j)) \<and>
        colr ! ((i + 1 + j) * 3) = colorR (color (k2 ! j)) \<and>
        colr ! ((i + 1 + j) * 3 + 1) = colorG (color (k2 ! j)) \<and>
        colr ! ((i + 1 + j) * 3 + 2) = colorB (color (k2 ! j))"
      using Cons.IH[OF r] Cons.prems(2,3) eq len by simp
    have inb: "i * 3 + 2 < length pos" "i * 3 + 2 < length col"
      using n Cons.prems(2,3) by simp_all
    have keepp: "posr ! k = pos1 ! k" and keepc: "colr ! k = col1 ! k" if "k < (i + 1) * 3" for k
      using cnt that by blast+
    have head: "posr ! (i * 3) = vecX (position p2) \<and>
        posr ! (i * 3 + 1) = vecY (position p2) \<and>
        posr ! (i * 3 + 2) = vecZ (position p2) \<and>
        colr ! (i * 3) = colorR (color p2) \<and>
        colr ! (i * 3 + 1) = colorG (color p2) \<and>
        colr ! (i * 3 + 2) = colorB (color p2)"
      using keepp[of "i * 3"] keepp[of "i * 3 + 1"] keepp[of "i * 3 + 2"]
            keepc[of "i * 3"] keepc[of "i * 3 + 1"] keepc[of "i * 3 + 2"]
            writeTriple_at[OF inb(1)] writeTriple_at[OF inb(2)]
      by (simp add: pos1_def col1_def)
    show ?thesis
    proof (intro allI impI)
      fix j assume j: "j < length kept"
      show "pos' ! ((i + j) * 3) = vecX (position (kept ! j)) \<and>
        pos' ! ((i + j) * 3 + 1) = vecY (position (kept ! j)) \<and>
        pos' ! ((i + j) * 3 + 2) = vecZ (position (kept ! j)) \<and>
        col' ! ((i + j) * 3) = colorR (color (kept ! j)) \<and>
        col' ! ((i + j) * 3 + 1) = colorG (color (kept ! j)) \<and>
        col' ! ((i + j) * 3 + 2) = colorB (color (kept ! j))"
      proof (cases j)
        case 0
        then show ?thesis using head eq by simp
      next
        case (Suc j')
        then have "j' < length k2" using j eq by simp
        with ih have "posr ! ((i + 1 + j') * 3) = vecX (position (k2 ! j')) \<and>
          posr ! ((i + 1 + j') * 3 + 1) = vecY (position (k2 ! j')) \<and>
          posr ! ((i + 1 + j') * 3 + 2) = vecZ (position (k2 ! j')) \<and>
          colr ! ((i + 1 + j') * 3) = colorR (color (k2 ! j')) \<and>
          colr ! ((i + 1 + j') * 3 + 1) = colorG (color (k2 ! j')) \<and>
          colr ! ((i + 1 + j') * 3 + 2) = colorB (color (k2 ! j'))" by blast
        moreover have "i + j = i + 1 + j'" using Suc by simp
        ultimately show ?thesis using eq Suc by simp
      qed
    qed
  qed
qed

subsection \<open>Frames\<close>

lemma frameInv_initial: "frameInv initialFrameState"
  by (simp add: frameInv_def initialFrameState_def)

lemma useFrame_inv:
  assumes "frameInv st"
  shows "frameInv (fst (useFrame ep el dl st s))"
proof -
  let ?e = "ep / 100"
  let ?sp = "spawnLoop3 (nat (spawnRate ?e)) ?e (liveParticles3 st) s"
  obtain kept n pos' col' where f:
    "filterFrame ?e el dl (fst ?sp) 0 (positionBuffer st) (colorBuffer st) = (kept, n, pos', col')"
    by (cases "filterFrame ?e el dl (fst ?sp) 0 (positionBuffer st) (colorBuffer st)") auto
  have u: "fst (useFrame ep el dl st s) =
             \<lparr>liveParticles3 = kept, positionBuffer = pos', colorBuffer = col', drawRange = n\<rparr>"
    using f by (simp add: useFrame_def split_beta Let_def)
  have sl: "length (fst ?sp) \<le> MAX_PARTICLES"
    using assms spawnLoop3_length[of "liveParticles3 st" "nat (spawnRate ?e)" ?e s]
    by (simp add: frameInv_def)
  note c = filterFrame_count[OF f]
  have n: "n = length kept" and kl: "length kept \<le> MAX_PARTICLES"
    using c sl by simp_all
  have lp: "length pos' = MAX_PARTICLES * 3" "length col' = MAX_PARTICLES * 3"
    using c assms by (simp_all add: frameInv_def)
  have "n * 3 \<le> length (positionBuffer st)" "n * 3 \<le> length (colorBuffer st)"
    using n kl assms by (simp_all add: frameInv_def)
  from filterFrame_contents[OF f this]
  show ?thesis unfolding u by (simp add: frameInv_def n kl lp)
qed

lemma runFrames_inv: "frameInv st \<Longrightarrow> frameInv (fst (runFrames fs st s))"
proof (induction fs arbitrary: st s)
  case Nil
  then show ?case by simp
next
  case (Cons a fs)
  obtain ep el dl where a: "a = (ep, el, dl)" by (cases a) auto
  have "frameInv (fst (useFrame ep el dl st s))" using Cons.prems by (rule useFrame_inv)
  from Cons.IH[OF this] show ?case by (simp add: a split_beta)
qed

subsection \<open>A frame on the generator of quarters\<close>

lemma spawnParticle_quarterDraws:
  "snd (spawnParticle e quarterDraws) = quarterDraws \<and>
   life (fst (spawnParticle (1 / 10) quarterDraws)) = 0.9225"
  by (simp add: spawnParticle_def gaussianRandom_def spawnRadius_def Let_def)
     (simp add: mathRandom_def quarterDraws_def power2_eq_square)

lemma spawnLoop3_constant:
  assumes "spawnParticle e s = (p, s)"
    and "int (length ps + n) \<le> particleCap e" and "length ps + n \<le> MAX_PARTICLES"
  shows "spawnLoop3 n e ps s = (ps @ replicate n p, s)"
  using assms(2,3)
proof (induction n arbitrary: ps)
  case 0
  then show ?case by simp
next
  case (Suc n)
  have lt: "int (length ps) < particleCap e" "length ps < MAX_PARTICLES" using Suc.prems by simp_all
  have "int (length (ps @ [p]) + n) \<le> particleCap e" "length (ps @ [p]) + n \<le> MAX_PARTICLES"
    using Suc.prems by simp_all
  from Suc.IH[OF this] lt assms(1) show ?case by (simp add: replicate_app_Cons_same)
qed

lemma filterFrame_all_alive:
  "\<forall>p \<in> set ps. 0 < life p - dl \<Longrightarrow>
   length (fst (filterFrame e el dl ps i pos col)) = length ps"
proof (induction ps arbitrary: i pos col)
  case Nil
  then show ?case by simp
next
  case (Cons p ps)
  have "\<not> life p - dl \<le> 0" using Cons.prems by simp
  moreover have "\<forall>p \<in> set ps. 0 < life p - dl" using Cons.prems by simp
  ultimately show ?case using Cons.IH by (simp add: split_beta Let_def)
qed

lemma first_frame_quarterDraws:
  "length (liveParticles3 (fst (runFrames [(10, 0, 0.016)] initialFrameState quarterDraws))) = 12"
proof -
  let ?p = "fst (spawnParticle (1 / 10) quarterDraws)"
  have sp: "spawnParticle (1 / 10) quarterDraws = (?p, quarterDraws)"
    using spawnParticle_quarterDraws[of "1 / 10"] by (simp add: prod_eq_iff)
  have r: "nat (spawnRate (1 / 10)) = 12" "particleCap (1 / 10) = 555"
    by (simp_all add: spawnRate_def particleCap_def power2_eq_square)
  have "spawnLoop3 12 (1 / 10) [] quarterDraws = ([] @ replicate 12 ?p, quarterDraws)"
    using sp by (rule spawnLoop3_constant) (simp_all add: r MAX_PARTICLES_def)
  then have s: "spawnLoop3 (nat (spawnRate (1 / 10))) (1 / 10) [] quarterDraws = (replicate 12 ?p, quarterDraws)"
    by (simp add: r)
  have "\<forall>p \<in> set (replicate 12 ?p). 0 < life p - 0.016"
    using spawnParticle_quarterDraws[of "1 / 10"] by simp
  from filterFrame_all_alive[OF this]
  have "length (fst (filterFrame (1 / 10) 0 0.016 (replicate 12 ?p) 0
          (positionBuffer initialFrameState) (colorBuffer initialFrameState))) = 12" by simp
  then show ?thesis
    by (simp add: useFrame_def s split_beta Let_def initialFrameState_def)
qed

text \<open>
  Claim C10. In the 3D variant, after any run of frames from the empty collection (any
  energies, clock times, deltas and draws), the collection holds at most
  \<open>MAX_PARTICLES = 6000\<close> particles, the draw range is the number of particles, both
  buffers keep their \<open>MAX_PARTICLES * 3\<close> entries, and every particle \<open>j\<close> of the draw
  range has \<open>j < MAX_PARTICLES\<close> and its position and colour at the offsets \<open>j * 3\<close>,
  \<open>j * 3 + 1\<close>, \<open>j * 3 + 2\<close>, which are inside the buffers. The spawn loop keeps a
  collection of at most \<open>MAX_PARTICLES\<close> within that bound and adds nothing to a
  collection that has reached it.
\<close>

theorem buffer_writes_in_bounds:
  "MAX_PARTICLES = 6000 \<and>
   length (liveParticles3 (fst (runFrames fs initialFrameState s))) \<le> MAX_PARTICLES \<and>
   drawRange (fst (runFrames fs initialFrameState s)) =
     length (liveParticles3 (fst (runFrames fs initialFrameState s))) \<and>
   length (positionBuffer (fst (runFrames fs initialFrameState s))) = MAX_PARTICLES * 3 \<and>
   length (colorBuffer (fst (runFrames fs initialFrameState s))) = MAX_PARTICLES * 3 \<and>
   drawRange (fst (runFrames fs initialFrameState s)) * 3 \<le>
     length (positionBuffer (fst (runFrames fs initialFrameState s))) \<and>
   (\<forall>j < drawRange (fst (runFrames fs initialFrameState s)).
      j < MAX_PARTICLES \<and>
      j * 3 + 2 < length (positionBuffer (fst (runFrames fs initialFrameState s))) \<and>
      positionBuffer (fst (runFrames fs initialFrameState s)) ! (j * 3) =
        vecX (position (liveParticles3 (fst (runFrames fs initialFrameState s)) ! j)) \<and>
      positionBuffer (fst (runFrames fs initialFrameState s)) ! (j * 3 + 1) =
        vecY (position (liveParticles3 (fst (runFrames fs initialFrameState s)) ! j)) \<and>
      positionBuffer (fst (runFrames fs initialFrameState s)) ! (j * 3 + 2) =
        vecZ (position (liveParticles3 (fst (runFrames fs initialFrameState s)) ! j)) \<and>
      colorBuffer (fst (runFrames fs initialFrameState s)) ! (j * 3) =
        colorR (color (liveParticles3 (fst (runFrames fs initialFrameState s)) ! j)) \<and>
      colorBuffer (fst (runFrames fs initialFrameState s)) ! (j * 3 + 1) =
        colorG (color (liveParticles3 (fst (runFrames fs initialFrameState s)) ! j)) \<and>
      colorBuffer (fst (runFrames fs initialFrameState s)) ! (j * 3 + 2) =
        colorB (color (liveParticles3 (fst (runFrames fs initialFrameState s)) ! j))) \<and>
   (length ps \<le> MAX_PARTICLES \<longrightarrow> length (fst (spawnLoop3 n e ps s1)) \<le> MAX_PARTICLES) \<and>
   (MAX_PARTICLES \<le> length ps \<longrightarrow> fst (spawnLoop3 n e ps s1) = ps)"
proof -
  let ?st = "fst (runFrames fs initialFrameState s)"
  have inv: "frameInv ?st" using frameInv_initial by (rule runFrames_inv)
  then have a: "length (liveParticles3 ?st) \<le> MAX_PARTICLES"
    and b: "drawRange ?st = length (liveParticles3 ?st)"
    and c: "length (positionBuffer ?st) = MAX_PARTICLES * 3"
    and d: "length (colorBuffer ?st) = MAX_PARTICLES * 3"
    by (simp_all add: frameInv_def)
  have e: "drawRange ?st * 3 \<le> length (positionBuffer ?st)" using a b c by simp
  have f: "j < MAX_PARTICLES \<and> j * 3 + 2 < length (positionBuffer ?st)" if "j < drawRange ?st" for j
    using that a b c by simp
  have g: "\<forall>j < drawRange ?st.
         positionBuffer ?st ! (j * 3) = vecX (position (liveParticles3 ?st ! j)) \<and>
         positionBuffer ?st ! (j * 3 + 1) = vecY (position (liveParticles3 ?st ! j)) \<and>
         positionBuffer ?st ! (j * 3 + 2) = vecZ (position (liveParticles3 ?st ! j)) \<and>
         colorBuffer ?st ! (j * 3) = colorR (color (liveParticles3 ?st ! j)) \<and>
         colorBuffer ?st ! (j * 3 + 1) = colorG (color (liveParticles3 ?st ! j)) \<and>
         colorBuffer ?st ! (j * 3 + 2) = colorB (color (liveParticles3 ?st ! j))"
    using inv by (simp add: frameInv_def)
  note h = spawnLoop3_length[of ps n e s1]
  have m: "MAX_PARTICLES = 6000" by (simp add: MAX_PARTICLES_def)
  from m a b c d e f g h show ?thesis by blast
qed

text \<open>
  One frame at 10 percent energy with every draw 1/4: 12 particles are spawned and
  written, the last at the offsets 33 to 35.
\<close>

theorem buffer_writes_in_bounds_witness:
  "length (liveParticles3 (fst (runFrames [(10, 0, 0.016)] initialFrameState quarterDraws))) = 12 \<and>
   drawRange (fst (runFrames [(10, 0, 0.016)] initialFrameState quarterDraws)) = 12 \<and>
   length (positionBuffer (fst (runFrames [(10, 0, 0.016)] initialFrameState quarterDraws))) = 18000 \<and>
   positionBuffer (fst (runFrames [(10, 0, 0.016)] initialFrameState quarterDraws)) ! (11 * 3 + 2) =
     vecZ (position (liveParticles3 (fst (runFrames [(10, 0, 0.016)] initialFrameState quarterDraws)) ! 11)) \<and>
   length ([] :: particle3 list) \<le> MAX_PARTICLES \<and>
   length (fst (spawnLoop3 210 1 [] quarterDraws)) \<le> MAX_PARTICLES"
proof -
  let ?st = "fst (runFrames [(10, 0, 0.016)] initialFrameState quarterDraws)"
  note t = buffer_writes_in_bounds[of "[(10, 0, 0.016)]" quarterDraws "[]" 210 1 quarterDraws]
  have l: "length (liveParticles3 ?st) = 12" by (rule first_frame_quarterDraws)
  from t have "drawRange ?st = length (liveParticles3 ?st)" by blast
  with l have d: "drawRange ?st = 12" by (simp del: runFrames.simps)
  from t have "length (positionBuffer ?st) = MAX_PARTICLES * 3" by blast
  then have b: "length (positionBuffer ?st) = 18000" by (simp add: MAX_PARTICLES_def del: runFrames.simps)
  from t have "\<forall>j < drawRange ?st.
      positionBuffer ?st ! (j * 3 + 2) = vecZ (position (liveParticles3 ?st ! j))" by blast
  then have "11 < drawRange ?st \<longrightarrow>
      positionBuffer ?st ! (11 * 3 + 2) = vecZ (position (liveParticles3 ?st ! 11))" by blast
  moreover have "11 < drawRange ?st" unfolding d by simp
  ultimately have z: "positionBuffer ?st ! (11 * 3 + 2) = vecZ (position (liveParticles3 ?st ! 11))"
    by blast
  have e: "length ([] :: particle3 list) \<le> MAX_PARTICLES" by simp
  from t have "length ([] :: particle3 list) \<le> MAX_PARTICLES \<longrightarrow>
      length (fst (spawnLoop3 210 1 [] quarterDraws)) \<le> MAX_PARTICLES" by blast
  with e have f: "length (fst (spawnLoop3 210 1 [] quarterDraws)) \<le> MAX_PARTICLES" by blast
  from l d b z e f show ?thesis by blast
qed

end
